theory Spec2Isabelle
  imports Main "HOL-Library.Multiset" "HOL-Library.Sublist"
begin

section \<open>JavaScript strings and values\<close>

text \<open>
  A JavaScript string is modelled as a \<^typ>\<open>string\<close>: a list of code units, here the
  code units U+0000 to U+00FF. An optional field of an interface (\<^verbatim>\<open>id?: string\<close>) is a
  \<^typ>\<open>string option\<close>, with \<^term>\<open>None\<close> for \<^verbatim>\<open>undefined\<close>.
\<close>

definition truthy :: "string option \<Rightarrow> bool" where
  \<comment> \<open>\<^verbatim>\<open>if (x)\<close> on \<^verbatim>\<open>string | undefined\<close>: \<^verbatim>\<open>undefined\<close> and the empty string are falsy.\<close>
  "truthy x = (case x of None \<Rightarrow> False | Some s \<Rightarrow> s \<noteq> [])"

definition js_or :: "string option \<Rightarrow> string option \<Rightarrow> string option" where
  \<comment> \<open>\<^verbatim>\<open>a || b\<close>: the left operand when it is truthy, the right one otherwise.\<close>
  "js_or a b = (if truthy a then a else b)"

definition toLowerChar :: "char \<Rightarrow> char" where
  \<comment> \<open>\<^verbatim>\<open>toLowerCase\<close> on one code unit below U+0100: A to Z, and the capital letters
      U+00C0 to U+00DE without the multiplication sign U+00D7, move up by 32.\<close>
  "toLowerChar c =
     (let n = (of_char c :: nat)
      in if (65 \<le> n \<and> n \<le> 90) \<or> (192 \<le> n \<and> n \<le> 222 \<and> n \<noteq> 215)
         then char_of (n + 32) else c)"

definition toLowerCase :: "string \<Rightarrow> string" where
  "toLowerCase s = map toLowerChar s"

definition is_space :: "char \<Rightarrow> bool" where
  \<comment> \<open>The class \<^verbatim>\<open>\s\<close> of a regular expression, below U+0100: tab, line feed, vertical
      tab, form feed, carriage return, space and the no-break space.\<close>
  "is_space c = ((of_char c :: nat) \<in> {9, 10, 11, 12, 13, 32, 160})"

text \<open>
  \<^verbatim>\<open>s.split(/\s+/)\<close>: the pieces between the maximal runs of white space. A run at
  the start or at the end of the string leaves an empty piece there, and the empty
  string gives the one empty piece.
\<close>

fun split_tok :: "string \<Rightarrow> string \<Rightarrow> string list"
  and split_sep :: "string \<Rightarrow> string list" where
  "split_tok cur [] = [rev cur]"
| "split_tok cur (c # cs) =
     (if is_space c then rev cur # split_sep cs else split_tok (c # cur) cs)"
| "split_sep [] = [[]]"
| "split_sep (c # cs) = (if is_space c then split_sep cs else split_tok [c] cs)"

definition split_ws :: "string \<Rightarrow> string list" where
  "split_ws s = split_tok [] s"

fun str_includes :: "string \<Rightarrow> string \<Rightarrow> bool" where
  \<comment> \<open>\<^verbatim>\<open>s.includes(k)\<close>: \<open>k\<close> occurs in \<open>s\<close> as a contiguous substring.\<close>
  "str_includes [] k = (k = [])"
| "str_includes (c # cs) k = (prefix k (c # cs) \<or> str_includes cs k)"

definition join :: "string \<Rightarrow> string list \<Rightarrow> string" where
  \<comment> \<open>\<^verbatim>\<open>parts.join(sep)\<close>\<close>
  "join sep parts = (case parts of [] \<Rightarrow> [] | p # ps \<Rightarrow> p @ concat (map (\<lambda>q. sep @ q) ps))"

text \<open>
  \<^verbatim>\<open>xs.sort(cmp)\<close>: the sort of an array is stable, and a stable sort has one result
  for a comparator that orders by a key. It is modelled as an insertion sort that
  enters the elements from the last to the first and puts each one before the first
  element that the comparator does not place in front of it.
\<close>

fun insert_by :: "('a \<Rightarrow> 'a \<Rightarrow> int) \<Rightarrow> 'a \<Rightarrow> 'a list \<Rightarrow> 'a list" where
  "insert_by cmp x [] = [x]"
| "insert_by cmp x (y # ys) = (if cmp x y \<le> 0 then x # y # ys else y # insert_by cmp x ys)"

definition js_sort :: "('a \<Rightarrow> 'a \<Rightarrow> int) \<Rightarrow> 'a list \<Rightarrow> 'a list" where
  "js_sort cmp xs = foldr (insert_by cmp) xs []"

section \<open>The data model\<close>

text \<open>
  \<^verbatim>\<open>ElementInfo\<close>, as the three files declare it (\<^verbatim>\<open>analyze-page.ts\<close> has no
  \<^verbatim>\<open>value\<close>, which none of the functions below reads). The fields \<^verbatim>\<open>id\<close>, \<^verbatim>\<open>type\<close>,
  \<^verbatim>\<open>text\<close> and \<^verbatim>\<open>value\<close> carry a prime.
\<close>

record ElementInfo =
  tagName :: string
  id' :: "string option"
  name :: "string option"
  className :: "string option"
  type' :: "string option"
  placeholder :: "string option"
  text' :: "string option"
  ariaLabel :: "string option"
  role :: "string option"
  testId :: "string option"
  href :: "string option"
  title :: "string option"
  value' :: "string option"
  xpath :: string
  selector :: string

record LocatorResult =
  type :: string
  locator :: string
  reliability :: int
  description :: string

section \<open>The element matcher\<close>

subsection \<open>\<^verbatim>\<open>GetLocatorsTool.findMatchingElements\<close>\<close>

definition keywords_of :: "string \<Rightarrow> string list" where
  \<comment> \<open>\<^verbatim>\<open>description.toLowerCase().split(/\s+/)\<close>\<close>
  "keywords_of descr = split_ws (toLowerCase descr)"

definition GetLocatorsTool_searchText :: "ElementInfo \<Rightarrow> string" where
  \<comment> \<open>\<^verbatim>\<open>[el.id, ..., el.testId].filter(Boolean).join(" ").toLowerCase()\<close>\<close>
  "GetLocatorsTool_searchText el =
     toLowerCase (join '' ''
       (map the (filter truthy
         [id' el, name el, className el, text' el, placeholder el, ariaLabel el,
          type' el, title el, Some (tagName el), role el, testId el])))"

definition opt_lower_includes :: "string option \<Rightarrow> string \<Rightarrow> bool" where
  \<comment> \<open>\<^verbatim>\<open>x?.toLowerCase().includes(keyword)\<close> as a condition: \<^verbatim>\<open>undefined\<close> is falsy.\<close>
  "opt_lower_includes x keyword =
     (case x of None \<Rightarrow> False | Some s \<Rightarrow> str_includes (toLowerCase s) keyword)"

definition score_step :: "ElementInfo \<Rightarrow> string \<Rightarrow> int \<Rightarrow> string \<Rightarrow> int" where
  \<comment> \<open>The body of \<^verbatim>\<open>for (const keyword of keywords)\<close>, from the score before to the score after.\<close>
  "score_step el searchText score keyword =
     (if str_includes searchText keyword then
        (let s1 = score + 1;
             s2 = (if map_option toLowerCase (id' el) = Some keyword then s1 + 3 else s1);
             s3 = (if opt_lower_includes (testId el) keyword then s2 + 3 else s2);
             s4 = (if opt_lower_includes (ariaLabel el) keyword then s3 + 2 else s3);
             s5 = (if opt_lower_includes (text' el) keyword then s4 + 2 else s4);
             s6 = (if opt_lower_includes (placeholder el) keyword then s5 + 2 else s5)
         in s6)
      else score)"

definition score_of :: "string list \<Rightarrow> ElementInfo \<Rightarrow> int" where
  \<comment> \<open>\<^verbatim>\<open>let score = 0; for (const keyword of keywords) { ... }\<close>\<close>
  "score_of keywords el = foldl (score_step el (GetLocatorsTool_searchText el)) 0 keywords"

definition GetLocatorsTool_findMatchingElements :: "ElementInfo list \<Rightarrow> string \<Rightarrow> ElementInfo list" where
  \<comment> \<open>\<open>allElements\<close> is what \<^verbatim>\<open>getAllElements(page)\<close> returned.\<close>
  "GetLocatorsTool_findMatchingElements allElements descr =
     (let keywords = keywords_of descr;
          scored = map (\<lambda>el. (el, score_of keywords el)) allElements
      in map fst (js_sort (\<lambda>a b. snd b - snd a) (filter (\<lambda>s. snd s > 0) scored)))"

text \<open>The score as the specification words it: a sum of points, one term per keyword.\<close>

definition spec_keyword_points :: "ElementInfo \<Rightarrow> string \<Rightarrow> int" where
  "spec_keyword_points el kw =
     (if str_includes (GetLocatorsTool_searchText el) kw then
        1 + (if map_option toLowerCase (id' el) = Some kw then 3 else 0)
          + (if opt_lower_includes (testId el) kw then 3 else 0)
          + (if opt_lower_includes (ariaLabel el) kw then 2 else 0)
          + (if opt_lower_includes (text' el) kw then 2 else 0)
          + (if opt_lower_includes (placeholder el) kw then 2 else 0)
      else 0)"

definition spec_score :: "string list \<Rightarrow> ElementInfo \<Rightarrow> int" where
  "spec_score keywords el = (\<Sum>kw\<leftarrow>keywords. spec_keyword_points el kw)"

subsection \<open>\<^verbatim>\<open>LocatorEngine.findMatchingElements\<close>\<close>

definition LocatorEngine_searchText :: "ElementInfo \<Rightarrow> string" where
  "LocatorEngine_searchText el =
     toLowerCase (join '' ''
       (map the (filter truthy
         [id' el, name el, className el, text' el, placeholder el, ariaLabel el,
          type' el, title el, Some (tagName el)])))"

definition LocatorEngine_findMatchingElements :: "ElementInfo list \<Rightarrow> string \<Rightarrow> ElementInfo list" where
  \<comment> \<open>\<open>allElements\<close> is what \<^verbatim>\<open>getAllInteractiveElements(page)\<close> returned.\<close>
  "LocatorEngine_findMatchingElements allElements descr =
     (let keywords = keywords_of descr
      in filter (\<lambda>el. list_ex (\<lambda>kw. str_includes (LocatorEngine_searchText el) kw) keywords) allElements)"

section \<open>Role inference\<close>

text \<open>
  \<^verbatim>\<open>roleMap\<close> and \<^verbatim>\<open>inputRoles\<close> are object literals, and \<^verbatim>\<open>roleMap[tag]\<close> reads a
  property: one of the literal's own, or else one that every object inherits from
  \<^verbatim>\<open>Object.prototype\<close>. An inherited member is a function or an object: it is truthy
  and it is not a string. The key is lowercased before the lookup, so of the inherited
  names only \<^verbatim>\<open>constructor\<close> and \<^verbatim>\<open>__proto__\<close> can be hit.
\<close>

datatype jsval = Str string | Inherited string

definition object_prototype_keys :: "string list" where
  "object_prototype_keys =
     [''constructor'', ''__defineGetter__'', ''__defineSetter__'', ''hasOwnProperty'',
      ''__lookupGetter__'', ''__lookupSetter__'', ''isPrototypeOf'', ''propertyIsEnumerable'',
      ''toString'', ''valueOf'', ''__proto__'', ''toLocaleString'']"

definition lookup :: "(string \<times> string) list \<Rightarrow> string \<Rightarrow> jsval option" where
  \<comment> \<open>\<^verbatim>\<open>obj[key]\<close> on an object literal with string values; \<^term>\<open>None\<close> is \<^verbatim>\<open>undefined\<close>.\<close>
  "lookup obj key =
     (case map_of obj key of
        Some v \<Rightarrow> Some (Str v)
      | None \<Rightarrow> if key \<in> set object_prototype_keys then Some (Inherited key) else None)"

definition jtruthy :: "jsval option \<Rightarrow> bool" where
  "jtruthy v = (case v of None \<Rightarrow> False | Some (Str s) \<Rightarrow> s \<noteq> [] | Some (Inherited k) \<Rightarrow> True)"

definition jsval_text :: "jsval \<Rightarrow> string" where
  \<comment> \<open>The value inside a template literal. An inherited function prints as the engine
      prints native code (here as Node.js does); the object behind \<^verbatim>\<open>__proto__\<close> prints
      as \<^verbatim>\<open>[object Object]\<close>.\<close>
  "jsval_text v =
     (case v of
        Str s \<Rightarrow> s
      | Inherited k \<Rightarrow>
          if k = ''__proto__'' then ''[object Object]''
          else ''function '' @ (if k = ''constructor'' then ''Object'' else k) @ ''() { [native code] }'')"

definition roleMap :: "(string \<times> string) list" where
  "roleMap = [(''button'', ''button''), (''a'', ''link''), (''select'', ''combobox''),
              (''textarea'', ''textbox''), (''img'', ''img'')]"

definition inputRoles :: "(string \<times> string) list" where
  "inputRoles = [(''submit'', ''button''), (''button'', ''button''), (''checkbox'', ''checkbox''),
                 (''radio'', ''radio''), (''text'', ''textbox''), (''email'', ''textbox''),
                 (''password'', ''textbox''), (''search'', ''searchbox''),
                 (''number'', ''spinbutton'')]"

definition AnalyzePageTool_inferRole :: "ElementInfo \<Rightarrow> jsval option" where
  \<comment> \<open>\<^term>\<open>None\<close> is \<^verbatim>\<open>null\<close>.\<close>
  "AnalyzePageTool_inferRole el =
     (let tag = toLowerCase (tagName el);
          type = map_option toLowerCase (type' el)
      in if jtruthy (lookup roleMap tag) then lookup roleMap tag
         else if tag = ''input'' then
           (let r = lookup inputRoles (case js_or type (Some ''text'') of Some k \<Rightarrow> k | None \<Rightarrow> ''text'')
            in if jtruthy r then r else Some (Str ''textbox''))
         else None)"

definition GetLocatorsTool_inferRole :: "ElementInfo \<Rightarrow> jsval option" where
  \<comment> \<open>The same text as \<^verbatim>\<open>AnalyzePageTool.inferRole\<close>.\<close>
  "GetLocatorsTool_inferRole el =
     (let tag = toLowerCase (tagName el);
          type = map_option toLowerCase (type' el)
      in if jtruthy (lookup roleMap tag) then lookup roleMap tag
         else if tag = ''input'' then
           (let r = lookup inputRoles (case js_or type (Some ''text'') of Some k \<Rightarrow> k | None \<Rightarrow> ''text'')
            in if jtruthy r then r else Some (Str ''textbox''))
         else None)"

definition LocatorEngine_inferRole :: "ElementInfo \<Rightarrow> string option" where
  "LocatorEngine_inferRole el =
     (let tag = toLowerCase (tagName el);
          type = map_option toLowerCase (type' el)
      in if tag = ''button'' \<or> type = Some ''submit'' \<or> type = Some ''button'' then Some ''button''
         else if tag = ''a'' then Some ''link''
         else if tag = ''input'' \<and> type = Some ''checkbox'' then Some ''checkbox''
         else if tag = ''input'' \<and> type = Some ''radio'' then Some ''radio''
         else if tag = ''input'' \<or> tag = ''textarea'' then Some ''textbox''
         else if tag = ''select'' then Some ''combobox''
         else if tag = ''img'' then Some ''img''
         else None)"

definition spec_inferRole :: "string \<Rightarrow> string option \<Rightarrow> string option" where
  \<comment> \<open>The lookup as the specification words it, from the lowercased tag and type.\<close>
  "spec_inferRole tag ty =
     (if tag = ''button'' then Some ''button''
      else if tag = ''a'' then Some ''link''
      else if tag = ''select'' then Some ''combobox''
      else if tag = ''textarea'' then Some ''textbox''
      else if tag = ''img'' then Some ''img''
      else if tag = ''input'' then
        (if ty = Some ''submit'' \<or> ty = Some ''button'' then Some ''button''
         else if ty = Some ''checkbox'' then Some ''checkbox''
         else if ty = Some ''radio'' then Some ''radio''
         else if ty = Some ''search'' then Some ''searchbox''
         else if ty = Some ''number'' then Some ''spinbutton''
         else Some ''textbox'')
      else None)"

section \<open>Escaping and the bound on text\<close>

definition MAX_TEXT_LENGTH :: nat where
  "MAX_TEXT_LENGTH = 100"

definition backslash :: char where
  "backslash = CHR 0x5C"

definition quote :: char where
  "quote = CHR 0x27"

definition replace_all :: "char \<Rightarrow> string \<Rightarrow> string \<Rightarrow> string" where
  \<comment> \<open>\<^verbatim>\<open>str.replace(/c/g, rep)\<close> for a pattern of one character and a replacement
      without \<^verbatim>\<open>$\<close>.\<close>
  "replace_all c rep str = concat (map (\<lambda>x. if x = c then rep else [x]) str)"

definition escape :: "string \<Rightarrow> string" where
  \<comment> \<open>\<^verbatim>\<open>AnalyzePageTool.escape\<close> and \<^verbatim>\<open>GetLocatorsTool.escape\<close>, which have the same text.\<close>
  "escape str =
     take MAX_TEXT_LENGTH
       (replace_all quote [backslash, quote] (replace_all backslash [backslash, backslash] str))"

definition LocatorEngine_escape :: "string \<Rightarrow> string" where
  "LocatorEngine_escape str = take 50 (replace_all quote [backslash, quote] str)"

definition trim :: "string \<Rightarrow> string" where
  "trim s = rev (dropWhile is_space (rev (dropWhile is_space s)))"

definition extract_text :: "nat \<Rightarrow> string option \<Rightarrow> string option" where
  \<comment> \<open>\<^verbatim>\<open>htmlEl.innerText?.trim().substring(0, maxTextLen) || undefined\<close>, the \<^verbatim>\<open>text\<close> of
      an extracted element. The two tools pass \<^verbatim>\<open>MAX_TEXT_LENGTH\<close>; \<^verbatim>\<open>LocatorEngine\<close>
      writes 50.\<close>
  "extract_text maxTextLen innerText =
     (case innerText of
        None \<Rightarrow> None
      | Some t \<Rightarrow> (let s = take maxTextLen (trim t) in if s = [] then None else Some s))"

definition spec_escape_char :: "char \<Rightarrow> string" where
  \<comment> \<open>The escaping as the specification words it, one character at a time: a backslash
      is doubled, a single quote gets a backslash in front, every other character stays.\<close>
  "spec_escape_char c =
     (if c = backslash then [backslash, backslash]
      else if c = quote then [backslash, quote]
      else [c])"

definition spec_escape :: "string \<Rightarrow> string" where
  "spec_escape str = take 100 (concat (map spec_escape_char str))"

section \<open>The locator synthesizer\<close>

definition sq :: "string \<Rightarrow> string" where
  \<comment> \<open>The string between single quotes.\<close>
  "sq s = [quote] @ s @ [quote]"

definition dq :: "string \<Rightarrow> string" where
  \<comment> \<open>The string between double quotes.\<close>
  "dq s = [CHR 0x22] @ s @ [CHR 0x22]"

definition when_truthy :: "string option \<Rightarrow> (string \<Rightarrow> 'a) \<Rightarrow> 'a list" where
  \<comment> \<open>\<^verbatim>\<open>if (x) { locators.push(f(x)) }\<close>: what the statement appends.\<close>
  "when_truthy x f = (case x of None \<Rightarrow> [] | Some s \<Rightarrow> if s \<noteq> [] then [f s] else [])"

definition role_of :: "string option \<Rightarrow> jsval option \<Rightarrow> jsval option" where
  \<comment> \<open>\<^verbatim>\<open>el.role || this.inferRole(el)\<close> in the two tools.\<close>
  "role_of r inferred = (if truthy r then map_option Str r else inferred)"

subsection \<open>\<^verbatim>\<open>AnalyzePageTool.generateLocators\<close>\<close>

definition AnalyzePageTool_generateLocators :: "ElementInfo \<Rightarrow> LocatorResult list" where
  "AnalyzePageTool_generateLocators el =
     when_truthy (testId el) (\<lambda>t.
       \<lparr>type = ''testId'', locator = ''getByTestId('' @ sq t @ '')'', reliability = 98,
        description = ''Best - explicitly set for testing''\<rparr>)
     @ (case role_of (role el) (AnalyzePageTool_inferRole el) of
          None \<Rightarrow> []
        | Some r \<Rightarrow>
            if jtruthy (Some r) then
              (case js_or (js_or (ariaLabel el) (text' el)) (title el) of
                 None \<Rightarrow>
                   [\<lparr>type = ''role'', locator = ''getByRole('' @ sq (jsval_text r) @ '')'',
                     reliability = 70,
                     description = ''Role without name - may match multiple elements''\<rparr>]
               | Some n \<Rightarrow>
                   if n \<noteq> [] then
                     [\<lparr>type = ''role'',
                       locator = ''getByRole('' @ sq (jsval_text r) @ '', { name: ''
                                 @ sq (escape n) @ '' })'',
                       reliability = 95,
                       description = ''Playwright recommended - accessible and stable''\<rparr>]
                   else
                     [\<lparr>type = ''role'', locator = ''getByRole('' @ sq (jsval_text r) @ '')'',
                       reliability = 70,
                       description = ''Role without name - may match multiple elements''\<rparr>])
            else [])
     @ when_truthy (ariaLabel el) (\<lambda>a.
         \<lparr>type = ''label'', locator = ''getByLabel('' @ sq (escape a) @ '')'', reliability = 90,
          description = ''Accessible label-based locator''\<rparr>)
     @ when_truthy (placeholder el) (\<lambda>p.
         \<lparr>type = ''placeholder'', locator = ''getByPlaceholder('' @ sq (escape p) @ '')'',
          reliability = 85, description = ''Good for form inputs''\<rparr>)
     @ (if tagName el \<notin> set [''input'', ''textarea''] then
          when_truthy (text' el) (\<lambda>t.
            \<lparr>type = ''text'', locator = ''getByText('' @ sq (escape t) @ '')'', reliability = 75,
             description = ''Text content - may break if text changes''\<rparr>)
        else [])
     @ when_truthy (id' el) (\<lambda>i.
         \<lparr>type = ''id'', locator = ''locator('' @ sq (''#'' @ i) @ '')'', reliability = 90,
          description = ''ID selector - stable if ID is meaningful''\<rparr>)
     @ (if selector el \<noteq> [] \<and> selector el \<noteq> tagName el then
          [\<lparr>type = ''css'', locator = ''locator('' @ sq (selector el) @ '')'', reliability = 60,
            description = ''CSS selector - may be brittle''\<rparr>]
        else [])
     @ [\<lparr>type = ''xpath'', locator = ''locator('' @ dq (xpath el) @ '')'', reliability = 40,
         description = ''XPath - avoid unless necessary''\<rparr>]"

subsection \<open>\<^verbatim>\<open>GetLocatorsTool.generateLocators\<close>\<close>

definition GetLocatorsTool_generateLocators :: "ElementInfo \<Rightarrow> LocatorResult list" where
  "GetLocatorsTool_generateLocators el =
     when_truthy (testId el) (\<lambda>t.
       \<lparr>type = ''testId'', locator = ''getByTestId('' @ sq t @ '')'', reliability = 98,
        description = ''Best - explicitly set for testing''\<rparr>)
     @ (case role_of (role el) (GetLocatorsTool_inferRole el) of
          None \<Rightarrow> []
        | Some r \<Rightarrow>
            if jtruthy (Some r) then
              when_truthy (js_or (js_or (ariaLabel el) (text' el)) (title el)) (\<lambda>n.
                \<lparr>type = ''role'',
                 locator = ''getByRole('' @ sq (jsval_text r) @ '', { name: ''
                           @ sq (escape n) @ '' })'',
                 reliability = 95,
                 description = ''Playwright recommended - accessible and stable''\<rparr>)
            else [])
     @ when_truthy (ariaLabel el) (\<lambda>a.
         \<lparr>type = ''label'', locator = ''getByLabel('' @ sq (escape a) @ '')'', reliability = 90,
          description = ''Accessible label-based locator''\<rparr>)
     @ when_truthy (placeholder el) (\<lambda>p.
         \<lparr>type = ''placeholder'', locator = ''getByPlaceholder('' @ sq (escape p) @ '')'',
          reliability = 85, description = ''Good for form inputs''\<rparr>)
     @ (if tagName el \<notin> set [''input'', ''textarea''] then
          when_truthy (text' el) (\<lambda>t.
            \<lparr>type = ''text'', locator = ''getByText('' @ sq (escape t) @ '')'', reliability = 75,
             description = ''Text content - may break if text changes''\<rparr>)
        else [])
     @ when_truthy (id' el) (\<lambda>i.
         \<lparr>type = ''id'', locator = ''locator('' @ sq (''#'' @ i) @ '')'', reliability = 90,
          description = ''ID selector - stable if ID is meaningful''\<rparr>)
     @ when_truthy (name el) (\<lambda>n.
         \<lparr>type = ''name'', locator = ''locator('' @ sq (''[name='' @ dq n @ '']'') @ '')'',
          reliability = 80, description = ''Name attribute selector''\<rparr>)
     @ (if selector el \<noteq> [] \<and> selector el \<noteq> tagName el then
          [\<lparr>type = ''css'', locator = ''locator('' @ sq (selector el) @ '')'', reliability = 60,
            description = ''CSS selector - may be brittle''\<rparr>]
        else [])
     @ [\<lparr>type = ''xpath'', locator = ''locator('' @ dq (xpath el) @ '')'', reliability = 40,
         description = ''XPath - avoid unless necessary''\<rparr>]"

subsection \<open>\<^verbatim>\<open>LocatorEngine.generateLocators\<close>\<close>

definition LocatorEngine_generateLocators :: "ElementInfo \<Rightarrow> LocatorResult list" where
  "LocatorEngine_generateLocators el =
     (case js_or (role el) (LocatorEngine_inferRole el) of
        None \<Rightarrow> []
      | Some r \<Rightarrow>
          if r \<noteq> [] then
            when_truthy (js_or (js_or (text' el) (ariaLabel el)) (title el)) (\<lambda>n.
              \<lparr>type = ''role'',
               locator = ''getByRole('' @ sq r @ '', { name: '' @ sq (LocatorEngine_escape n)
                         @ '' })'',
               reliability = 95,
               description = ''Playwright recommended - accessible and stable''\<rparr>)
          else [])
     @ when_truthy (testId el) (\<lambda>t.
         \<lparr>type = ''testId'', locator = ''getByTestId('' @ sq t @ '')'', reliability = 98,
          description = ''Best choice - explicitly set for testing''\<rparr>)
     @ when_truthy (placeholder el) (\<lambda>p.
         \<lparr>type = ''placeholder'',
          locator = ''getByPlaceholder('' @ sq (LocatorEngine_escape p) @ '')'',
          reliability = 85, description = ''Good for form inputs''\<rparr>)
     @ when_truthy (ariaLabel el) (\<lambda>a.
         \<lparr>type = ''label'', locator = ''getByLabel('' @ sq (LocatorEngine_escape a) @ '')'',
          reliability = 88, description = ''Accessible label-based locator''\<rparr>)
     @ (if tagName el \<noteq> ''input'' then
          when_truthy (text' el) (\<lambda>t.
            \<lparr>type = ''text'', locator = ''getByText('' @ sq (LocatorEngine_escape t) @ '')'',
             reliability = 75,
             description = ''Text content based - may break if text changes''\<rparr>)
        else [])
     @ when_truthy (id' el) (\<lambda>i.
         \<lparr>type = ''id'', locator = ''locator('' @ sq (''#'' @ i) @ '')'', reliability = 90,
          description = ''ID selector - stable if ID is meaningful''\<rparr>)
     @ [\<lparr>type = ''css'', locator = ''locator('' @ sq (selector el) @ '')'', reliability = 60,
         description = ''CSS selector - may be brittle''\<rparr>]
     @ [\<lparr>type = ''xpath'', locator = ''locator('' @ sq (xpath el) @ '')'', reliability = 40,
         description = ''XPath - avoid unless necessary''\<rparr>]"

subsection \<open>\<^verbatim>\<open>GetLocatorsTool.generateSeleniumLocators\<close>\<close>

record SeleniumLocator =
  java :: string
  python :: string
  csharp :: string

definition selenium :: "string \<Rightarrow> string \<Rightarrow> string \<Rightarrow> string \<Rightarrow> SeleniumLocator" where
  \<comment> \<open>The three renderings of one strategy with one argument, as each \<^verbatim>\<open>push\<close> writes them:
      \<^verbatim>\<open>By.id("x")\<close>, \<^verbatim>\<open>By.ID, "x"\<close>, \<^verbatim>\<open>By.Id("x")\<close>.\<close>
  "selenium j p c arg =
     \<lparr>java = ''By.'' @ j @ ''('' @ dq arg @ '')'',
      python = ''By.'' @ p @ '', '' @ dq arg,
      csharp = ''By.'' @ c @ ''('' @ dq arg @ '')''\<rparr>"

definition firstClass_of :: "string \<Rightarrow> string" where
  \<comment> \<open>\<^verbatim>\<open>el.className.split(" ")[0]\<close>: the text before the first space.\<close>
  "firstClass_of cls = takeWhile (\<lambda>c. c \<noteq> CHR '' '') cls"

definition generateSeleniumLocators :: "ElementInfo \<Rightarrow> SeleniumLocator list" where
  "generateSeleniumLocators el =
     when_truthy (id' el) (selenium ''id'' ''ID'' ''Id'')
     @ when_truthy (name el) (selenium ''name'' ''NAME'' ''Name'')
     @ (if selector el \<noteq> [] then
          [selenium ''cssSelector'' ''CSS_SELECTOR'' ''CssSelector'' (selector el)]
        else [])
     @ (if xpath el \<noteq> [] then [selenium ''xpath'' ''XPATH'' ''XPath'' (xpath el)] else [])
     @ (if tagName el = ''a'' then
          when_truthy (text' el) (\<lambda>t. selenium ''linkText'' ''LINK_TEXT'' ''LinkText'' (escape t))
        else [])
     @ (case className el of
          None \<Rightarrow> []
        | Some cls \<Rightarrow>
            if cls \<noteq> [] then
              (let firstClass = firstClass_of cls
               in if firstClass \<noteq> [] \<and> \<not> str_includes firstClass '':'' then
                    [selenium ''className'' ''CLASS_NAME'' ''ClassName'' firstClass]
                  else [])
            else [])
     @ [selenium ''tagName'' ''TAG_NAME'' ''TagName'' (tagName el)]"

section \<open>The reliability ranker\<close>

definition rankLocators :: "LocatorResult list \<Rightarrow> LocatorResult list" where
  \<comment> \<open>\<^verbatim>\<open>[...locators].sort((a, b) => b.reliability - a.reliability)\<close> in the two tools;
      \<^verbatim>\<open>LocatorEngine.rankLocators\<close> sorts the array it is given, with the same comparator,
      and returns it.\<close>
  "rankLocators locators = js_sort (\<lambda>a b. reliability b - reliability a) locators"

section \<open>\<^verbatim>\<open>analyze_page\<close>\<close>

datatype thrown = Error string | Thrown string

definition message_of :: "thrown \<Rightarrow> string" where
  \<comment> \<open>\<^verbatim>\<open>e instanceof Error ? e.message : String(e)\<close>; \<^term>\<open>Thrown s\<close> is a thrown value that
      is not an \<^verbatim>\<open>Error\<close> and that prints as \<open>s\<close>.\<close>
  "message_of e = (case e of Error m \<Rightarrow> m | Thrown s \<Rightarrow> s)"

definition MAX_ELEMENTS :: nat where
  "MAX_ELEMENTS = 50"

definition MAX_LOCATORS_PER_ELEMENT :: nat where
  "MAX_LOCATORS_PER_ELEMENT = 5"

record PageElement =
  element :: string
  elementType :: string
  locators :: "LocatorResult list"
  recommended :: string

record AnalyzePageResult =
  url :: string
  totalElements :: nat
  returnedElements :: nat
  truncated :: bool
  elements :: "PageElement list"

definition AnalyzePageTool_describeElement :: "ElementInfo \<Rightarrow> string" where
  "AnalyzePageTool_describeElement el =
     (let parts =
            when_truthy (text' el) (\<lambda>t. dq (take 30 t))
            @ when_truthy (placeholder el) (\<lambda>p. ''placeholder='' @ dq p)
            @ when_truthy (ariaLabel el) (\<lambda>a. ''aria-label='' @ dq a)
            @ (if type' el \<noteq> Some (tagName el) then when_truthy (type' el) (\<lambda>t. ''type='' @ t)
               else [])
            @ when_truthy (name el) (\<lambda>n. ''name='' @ dq n)
            @ [''<'' @ tagName el @ ''>'']
      in if join '' '' parts \<noteq> [] then join '' '' parts else tagName el)"

definition opt_includes :: "string option \<Rightarrow> string \<Rightarrow> bool" where
  \<comment> \<open>\<^verbatim>\<open>x?.includes(t)\<close> as a condition.\<close>
  "opt_includes x t = (case x of None \<Rightarrow> False | Some s \<Rightarrow> str_includes s t)"

definition AnalyzePageTool_filter :: "ElementInfo list \<Rightarrow> string list option \<Rightarrow> ElementInfo list" where
  \<comment> \<open>The value of \<^verbatim>\<open>filtered\<close>; \<open>elementTypes\<close> is \<^term>\<open>None\<close> when the argument is left out.\<close>
  "AnalyzePageTool_filter allElements elementTypes =
     (case elementTypes of
        None \<Rightarrow> allElements
      | Some ts \<Rightarrow>
          if length ts > 0 then
            filter (\<lambda>el. list_ex (\<lambda>t.
                str_includes (toLowerCase (tagName el)) (toLowerCase t)
                \<or> opt_lower_includes (type' el) (toLowerCase t)
                \<or> opt_lower_includes (role el) (toLowerCase t)) ts) allElements
          else allElements)"

definition AnalyzePageTool_execute ::
  "(string \<Rightarrow> thrown + ElementInfo list) \<Rightarrow> string \<Rightarrow> string list option
     \<Rightarrow> thrown + AnalyzePageResult" where
  \<comment> \<open>\<open>scan u\<close> is \<^verbatim>\<open>navigateTo(u)\<close> followed by \<^verbatim>\<open>getAllInteractiveElements(page)\<close>: the
      elements of the page, or what the browser threw.\<close>
  "AnalyzePageTool_execute scan u elementTypes =
     (case scan u of
        Inl e \<Rightarrow> Inl e
      | Inr allElements \<Rightarrow>
          (let filtered = AnalyzePageTool_filter allElements elementTypes;
               truncated' = length filtered > MAX_ELEMENTS;
               limited = take MAX_ELEMENTS filtered;
               elements' = map (\<lambda>el.
                 (let locators' = AnalyzePageTool_generateLocators el;
                      ranked = take MAX_LOCATORS_PER_ELEMENT (rankLocators locators')
                  in \<lparr>element = AnalyzePageTool_describeElement el,
                      elementType = toLowerCase (tagName el),
                      locators = ranked,
                      recommended =
                        (case ranked of
                           [] \<Rightarrow> ''N/A''
                         | r # _ \<Rightarrow> if locator r \<noteq> [] then locator r else ''N/A'')\<rparr>)) limited
           in Inr \<lparr>url = u,
                   totalElements = length allElements,
                   returnedElements = length elements',
                   truncated = truncated',
                   elements = elements'\<rparr>))"

subsection \<open>\<^verbatim>\<open>LocatorEngine.analyzePage\<close>\<close>

record LocatorEngine_AnalyzeResult =
  le_url :: string
  le_totalElements :: nat
  le_elements :: "PageElement list"

definition LocatorEngine_describeElement :: "ElementInfo \<Rightarrow> string" where
  "LocatorEngine_describeElement el =
     (let parts =
            when_truthy (text' el) (\<lambda>t. dq t)
            @ when_truthy (placeholder el) (\<lambda>p. ''placeholder: '' @ dq p)
            @ when_truthy (type' el) (\<lambda>t. ''type: '' @ t)
            @ [''<'' @ tagName el @ ''>'']
      in if join '' '' parts \<noteq> [] then join '' '' parts else tagName el)"

definition LocatorEngine_filter :: "ElementInfo list \<Rightarrow> string list option \<Rightarrow> ElementInfo list" where
  "LocatorEngine_filter allElements elementTypes =
     (case elementTypes of
        None \<Rightarrow> allElements
      | Some ts \<Rightarrow>
          if length ts > 0 then
            filter (\<lambda>el. list_ex (\<lambda>t.
                str_includes (toLowerCase (tagName el)) t \<or> opt_includes (type' el) t) ts)
              allElements
          else allElements)"

definition LocatorEngine_analyzePage ::
  "(string \<Rightarrow> thrown + ElementInfo list) \<Rightarrow> string \<Rightarrow> string list option
     \<Rightarrow> thrown + LocatorEngine_AnalyzeResult" where
  "LocatorEngine_analyzePage scan u elementTypes =
     (case scan u of
        Inl e \<Rightarrow> Inl e
      | Inr allElements \<Rightarrow>
          (let filtered = LocatorEngine_filter allElements elementTypes;
               results = map (\<lambda>el.
                 (let locators' = LocatorEngine_generateLocators el;
                      ranked = rankLocators locators'
                  in \<lparr>element = LocatorEngine_describeElement el,
                      elementType = toLowerCase (tagName el),
                      locators = take 3 ranked,
                      recommended =
                        (case ranked of
                           [] \<Rightarrow> ''N/A''
                         | r # _ \<Rightarrow> if locator r \<noteq> [] then locator r else ''N/A'')\<rparr>)) filtered
           in Inr \<lparr>le_url = u, le_totalElements = length results, le_elements = results\<rparr>))"

section \<open>The locator validator\<close>

record ValidationResult =
  isValid :: bool
  matchCount :: nat
  isUnique :: bool
  suggestions :: "string list"

fun digits :: "nat \<Rightarrow> string" where
  \<comment> \<open>A count inside a template literal: its decimal digits.\<close>
  "digits n =
     (if n < 10 then [char_of (48 + n)] else digits (n div 10) @ [char_of (48 + n mod 10)])"

definition LocatorEngine_validateLocator ::
  "(string \<Rightarrow> thrown + 'page) \<Rightarrow> ('page \<Rightarrow> string \<Rightarrow> thrown + 'loc) \<Rightarrow> ('loc \<Rightarrow> thrown + nat)
     \<Rightarrow> string \<Rightarrow> string \<Rightarrow> thrown + ValidationResult" where
  \<comment> \<open>\<open>navigateTo\<close> is the browser manager's; \<open>parseLocatorString page str\<close> is the locator
      that \<^verbatim>\<open>this.parseLocatorString(page, locatorStr)\<close> builds and \<open>locator_count loc\<close> is
      \<^verbatim>\<open>await locator.count()\<close>, each one with what it may throw. The navigation is
      outside the \<^verbatim>\<open>try\<close>, the other two are inside.\<close>
  "LocatorEngine_validateLocator navigateTo parseLocatorString locator_count u locatorStr =
     (case navigateTo u of
        Inl e \<Rightarrow> Inl e
      | Inr page \<Rightarrow>
          (case (case parseLocatorString page locatorStr of
                   Inl e \<Rightarrow> Inl e
                 | Inr loc \<Rightarrow> locator_count loc) of
             Inr n \<Rightarrow>
               Inr \<lparr>isValid = n > 0,
                    matchCount = n,
                    isUnique = (n = 1),
                    suggestions =
                      (if n = 0 then
                         [''Element not found. Check if the page has loaded completely.'',
                          ''Verify the locator syntax is correct.'']
                       else if n > 1 then
                         [''Found '' @ digits n @ '' elements. Consider adding more specificity.'',
                          ''Try using getByRole with name option for uniqueness.'']
                       else [])\<rparr>
           | Inl e \<Rightarrow>
               Inr \<lparr>isValid = False,
                    matchCount = 0,
                    isUnique = False,
                    suggestions = [''Invalid locator syntax: '' @ message_of e]\<rparr>))"

section \<open>Example elements\<close>

definition blank :: "string \<Rightarrow> ElementInfo" where
  \<comment> \<open>An element with a tag and no attribute: the first of its kind in the body.\<close>
  "blank t =
     \<lparr>tagName = t, id' = None, name = None, className = None, type' = None,
      placeholder = None, text' = None, ariaLabel = None, role = None, testId = None,
      href = None, title = None, value' = None,
      xpath = ''/html[1]/body[1]/'' @ t @ ''[1]'', selector = t\<rparr>"

definition login_button :: ElementInfo where
  \<comment> \<open>\<^verbatim>\<open><button data-testid="login-btn" aria-label="Login">Login</button>\<close>, as the
      extraction records it; the \<^verbatim>\<open>type\<close> of a button is \<^verbatim>\<open>submit\<close> by default.\<close>
  "login_button =
     (blank ''button'')\<lparr>type' := Some ''submit'', text' := Some ''Login'',
        ariaLabel := Some ''Login'', testId := Some ''login-btn''\<rparr>"

definition ok_button :: ElementInfo where
  \<comment> \<open>\<^verbatim>\<open><button>OK</button>\<close>\<close>
  "ok_button = (blank ''button'')\<lparr>type' := Some ''submit'', text' := Some ''OK''\<rparr>"

definition bare_button :: ElementInfo where
  \<comment> \<open>A button with no text, no label and no title.\<close>
  "bare_button = (blank ''button'')\<lparr>type' := Some ''submit''\<rparr>"

definition notes_textarea :: ElementInfo where
  \<comment> \<open>\<^verbatim>\<open><textarea>Notes</textarea>\<close>\<close>
  "notes_textarea = (blank ''textarea'')\<lparr>type' := Some ''textarea'', text' := Some ''Notes''\<rparr>"

definition search_input :: ElementInfo where
  \<comment> \<open>\<^verbatim>\<open><input type="search">\<close>\<close>
  "search_input = (blank ''input'')\<lparr>type' := Some ''search''\<rparr>"

definition number_input :: ElementInfo where
  \<comment> \<open>\<^verbatim>\<open><input type="number">\<close>\<close>
  "number_input = (blank ''input'')\<lparr>type' := Some ''number''\<rparr>"

definition login_link :: ElementInfo where
  \<comment> \<open>\<^verbatim>\<open><a class="login-link" href="/in">Enter</a>\<close>\<close>
  "login_link =
     (blank ''a'')\<lparr>className := Some ''login-link'', text' := Some ''Enter'',
        href := Some ''/in'', selector := ''a.login-link''\<rparr>"

definition login_text_button :: ElementInfo where
  \<comment> \<open>\<^verbatim>\<open><button>Login</button>\<close>\<close>
  "login_text_button = (blank ''button'')\<lparr>type' := Some ''submit'', text' := Some ''Login''\<rparr>"

definition login_testid_div :: ElementInfo where
  \<comment> \<open>\<^verbatim>\<open><div data-testid="login" tabindex="0">Go</div>\<close>\<close>
  "login_testid_div = (blank ''div'')\<lparr>text' := Some ''Go'', testId := Some ''login''\<rparr>"

definition two_elements :: "string \<Rightarrow> thrown + ElementInfo list" where
  \<comment> \<open>A page with a button and a search field, whatever the address.\<close>
  "two_elements u = Inr [bare_button, search_input]"

definition many_buttons :: "string \<Rightarrow> thrown + ElementInfo list" where
  \<comment> \<open>A page with 75 buttons.\<close>
  "many_buttons u = Inr (replicate 75 bare_button)"

definition login_id_button :: ElementInfo where
  \<comment> \<open>\<^verbatim>\<open><button id="Login"></button>\<close>\<close>
  "login_id_button =
     (blank ''button'')\<lparr>id' := Some ''Login'', type' := Some ''submit'',
        xpath := ''//*[@id='' @ dq ''Login'' @ '']'', selector := ''#Login''\<rparr>"

definition demo_navigateTo :: "string \<Rightarrow> thrown + nat" where
  \<comment> \<open>A browser in which every navigation succeeds; the page is page 0.\<close>
  "demo_navigateTo u = Inr 0"

definition demo_parse :: "nat \<Rightarrow> string \<Rightarrow> thrown + string" where
  \<comment> \<open>The locator of a string is named by the string.\<close>
  "demo_parse page str = Inr str"

definition demo_count :: "string \<Rightarrow> thrown + nat" where
  \<comment> \<open>A page on which \<^verbatim>\<open>button\<close> matches three elements, \<^verbatim>\<open>#nonexistent\<close> matches none,
      and the selector \<^verbatim>\<open>#a[\<close> is refused.\<close>
  "demo_count loc =
     (if loc = ''#a['' then Inl (Error ''Unexpected token'')
      else if loc = ''button'' then Inr 3
      else Inr 0)"

section \<open>Facts about the string functions and the sort\<close>

lemma includes_iff: "str_includes s k \<longleftrightarrow> (\<exists>ps ss. s = ps @ k @ ss)"
proof (induction s)
  case Nil
  then show ?case by auto
next
  case (Cons c cs)
  show ?case
  proof
    assume "str_includes (c # cs) k"
    then consider "prefix k (c # cs)" | "str_includes cs k" by auto
    then show "\<exists>ps ss. c # cs = ps @ k @ ss"
    proof cases
      case 1
      then obtain ss where "c # cs = k @ ss" by (auto simp: prefix_def)
      then have "c # cs = [] @ k @ ss" by simp
      then show ?thesis by blast
    next
      case 2
      with Cons obtain ps ss where "cs = ps @ k @ ss" by blast
      then have "c # cs = (c # ps) @ k @ ss" by simp
      then show ?thesis by blast
    qed
  next
    assume "\<exists>ps ss. c # cs = ps @ k @ ss"
    then obtain ps ss where eq: "c # cs = ps @ k @ ss" by blast
    show "str_includes (c # cs) k"
    proof (cases ps)
      case Nil
      with eq have "prefix k (c # cs)" by (simp add: prefix_def)
      then show ?thesis by simp
    next
      case (Cons p ps')
      with eq have "cs = ps' @ k @ ss" by simp
      with Cons.IH have "str_includes cs k" by blast
      then show ?thesis by simp
    qed
  qed
qed

lemma includes_empty: "str_includes s []"
  by (cases s) simp_all

lemma insert_by_insort:
  "insert_by (\<lambda>a b. key b - key a) x ys = insort_key (\<lambda>v. - key v) x ys"
  by (induction ys) auto

lemma js_sort_sort_key:
  "js_sort (\<lambda>a b. key b - key a) xs = sort_key (\<lambda>v. - key v) xs"
  by (induction xs) (simp_all add: js_sort_def insert_by_insort)

lemma js_sort_mset: "mset (js_sort (\<lambda>a b. key b - key a) xs) = mset xs"
  by (simp add: js_sort_sort_key)

lemma js_sort_descending:
  "sorted_wrt (\<lambda>a b. key a \<ge> key b) (js_sort (\<lambda>a b. (key b :: int) - key a) xs)"
proof -
  have "sorted (map (\<lambda>v. - key v) (sort_key (\<lambda>v. - key v) xs))"
    by (rule sorted_sort_key)
  then show ?thesis
    by (simp add: js_sort_sort_key sorted_map)
qed

lemma js_sort_stable:
  "filter (\<lambda>v. key v = k) (js_sort (\<lambda>a b. (key b :: int) - key a) xs) = filter (\<lambda>v. key v = k) xs"
proof -
  have "filter (\<lambda>v. - key v = - k) (sort_key (\<lambda>v. - key v) xs) = filter (\<lambda>v. - key v = - k) xs"
    by (rule sort_key_stable)
  then show ?thesis
    by (simp add: js_sort_sort_key)
qed

lemma subseq_member: "subseq xs ys \<Longrightarrow> x \<in> set xs \<Longrightarrow> x \<in> set ys"
  by (erule list_emb_set) auto

lemma subseq_keeps_distinct: "subseq xs ys \<Longrightarrow> distinct ys \<Longrightarrow> distinct xs"
  by (induction rule: list_emb.induct) (auto dest: subseq_member)

section \<open>The shape of a candidate list\<close>

text \<open>
  Each generator emits its candidates in one fixed order, each kind at most once, with
  the reliability that the source writes next to the kind.
\<close>

lemma A_kinds:
  "subseq (map (\<lambda>c. (type c, reliability c)) (AnalyzePageTool_generateLocators el))
     ([(''testId'', 98)] @ [(''role'', 95), (''role'', 70)] @ [(''label'', 90)]
      @ [(''placeholder'', 85)] @ [(''text'', 75)] @ [(''id'', 90)] @ [(''css'', 60)]
      @ [(''xpath'', 40)])"
  unfolding AnalyzePageTool_generateLocators_def map_append
  by (intro list_emb_append_mono) (auto simp: when_truthy_def split: option.splits if_splits)

lemma A_types:
  "subseq (map type (AnalyzePageTool_generateLocators el))
     ([''testId''] @ [''role''] @ [''label''] @ [''placeholder''] @ [''text''] @ [''id'']
      @ [''css''] @ [''xpath''])"
  unfolding AnalyzePageTool_generateLocators_def map_append
  by (intro list_emb_append_mono) (auto simp: when_truthy_def split: option.splits if_splits)

lemma G_kinds:
  "subseq (map (\<lambda>c. (type c, reliability c)) (GetLocatorsTool_generateLocators el))
     ([(''testId'', 98)] @ [(''role'', 95)] @ [(''label'', 90)]
      @ [(''placeholder'', 85)] @ [(''text'', 75)] @ [(''id'', 90)] @ [(''name'', 80)]
      @ [(''css'', 60)] @ [(''xpath'', 40)])"
  unfolding GetLocatorsTool_generateLocators_def map_append
  by (intro list_emb_append_mono) (auto simp: when_truthy_def split: option.splits if_splits)

lemma L_kinds:
  "subseq (map (\<lambda>c. (type c, reliability c)) (LocatorEngine_generateLocators el))
     ([(''role'', 95)] @ [(''testId'', 98)] @ [(''placeholder'', 85)] @ [(''label'', 88)]
      @ [(''text'', 75)] @ [(''id'', 90)] @ [(''css'', 60)] @ [(''xpath'', 40)])"
  unfolding LocatorEngine_generateLocators_def map_append
  by (intro list_emb_append_mono) (auto simp: when_truthy_def split: option.splits if_splits)

lemma kinds_types:
  "subseq (map (\<lambda>c. (type c, reliability c)) cs) ks \<Longrightarrow> subseq (map type cs) (map fst ks)"
proof -
  assume "subseq (map (\<lambda>c. (type c, reliability c)) cs) ks"
  then have "subseq (map fst (map (\<lambda>c. (type c, reliability c)) cs)) (map fst ks)"
    by (rule subseq_map)
  then show ?thesis by (simp add: comp_def)
qed

lemma A_distinct: "distinct (map type (AnalyzePageTool_generateLocators el))"
  using A_types[of el] by (rule subseq_keeps_distinct) simp

lemma G_distinct: "distinct (map type (GetLocatorsTool_generateLocators el))"
  using kinds_types[OF G_kinds[of el]] by (rule subseq_keeps_distinct) simp

lemma L_distinct: "distinct (map type (LocatorEngine_generateLocators el))"
  using kinds_types[OF L_kinds[of el]] by (rule subseq_keeps_distinct) simp

lemma kinds_member:
  "subseq (map (\<lambda>c. (type c, reliability c)) cs) ks \<Longrightarrow> c \<in> set cs \<Longrightarrow>
   (type c, reliability c) \<in> set ks"
  by (rule subseq_member[where xs = "map (\<lambda>c. (type c, reliability c)) cs"]) auto

lemma A_same_kind:
  assumes "c1 \<in> set (AnalyzePageTool_generateLocators e1)"
    and "c2 \<in> set (AnalyzePageTool_generateLocators e2)"
    and "type c1 = type c2" and "type c1 \<noteq> ''role''"
  shows "reliability c1 = reliability c2"
  using kinds_member[OF A_kinds assms(1)] kinds_member[OF A_kinds assms(2)] assms(3,4)
  by auto

lemma G_same_kind:
  assumes "c1 \<in> set (GetLocatorsTool_generateLocators e1)"
    and "c2 \<in> set (GetLocatorsTool_generateLocators e2)"
    and "type c1 = type c2"
  shows "reliability c1 = reliability c2"
  using kinds_member[OF G_kinds assms(1)] kinds_member[OF G_kinds assms(2)] assms(3)
  by auto

lemma L_same_kind:
  assumes "c1 \<in> set (LocatorEngine_generateLocators e1)"
    and "c2 \<in> set (LocatorEngine_generateLocators e2)"
    and "type c1 = type c2"
  shows "reliability c1 = reliability c2"
  using kinds_member[OF L_kinds assms(1)] kinds_member[OF L_kinds assms(2)] assms(3)
  by auto

lemma A_role_score:
  assumes "c \<in> set (AnalyzePageTool_generateLocators el)" and "type c = ''role''"
  shows "reliability c =
     (if truthy (js_or (js_or (ariaLabel el) (text' el)) (title el)) then 95 else 70)"
  using assms unfolding AnalyzePageTool_generateLocators_def set_append Un_iff
  by (elim disjE) (auto simp: when_truthy_def truthy_def split: option.splits if_splits)

section \<open>The ranker, and the reliability of a kind\<close>

lemma ok_button_candidates:
  "map (\<lambda>c. (type c, reliability c)) (AnalyzePageTool_generateLocators ok_button)
     = [(''role'', 95), (''text'', 75), (''xpath'', 40)]"
  by code_simp

lemma login_button_candidates:
  "map (\<lambda>c. (type c, reliability c)) (AnalyzePageTool_generateLocators login_button)
     = [(''testId'', 98), (''role'', 95), (''label'', 90), (''text'', 75), (''xpath'', 40)]"
  by code_simp

text \<open>
  C5, as amended. \<^verbatim>\<open>rankLocators\<close> returns the candidates it is given, sorted by
  reliability in non-increasing order, and the sort is stable: the candidates of one
  reliability keep their emission order. In the candidate list of one element every
  kind label occurs at most once. Two candidates of one generator, also for different
  elements, that bear the same kind label have the same reliability, except for the
  kind \<^verbatim>\<open>role\<close> in \<^verbatim>\<open>AnalyzePageTool.generateLocators\<close>, which scores 95 with a name and
  70 without one.
\<close>

theorem rank_sorted_stable:
  "sorted_wrt (\<lambda>a b. reliability a \<ge> reliability b) (rankLocators cs)
   \<and> (\<forall>k. filter (\<lambda>c. reliability c = k) (rankLocators cs) = filter (\<lambda>c. reliability c = k) cs)
   \<and> mset (rankLocators cs) = mset cs
   \<and> distinct (map type (AnalyzePageTool_generateLocators el))
   \<and> distinct (map type (GetLocatorsTool_generateLocators el))
   \<and> distinct (map type (LocatorEngine_generateLocators el))
   \<and> (\<forall>c1 \<in> set (AnalyzePageTool_generateLocators e1).
       \<forall>c2 \<in> set (AnalyzePageTool_generateLocators e2).
         type c1 = type c2 \<and> type c1 \<noteq> ''role'' \<longrightarrow> reliability c1 = reliability c2)
   \<and> (\<forall>c \<in> set (AnalyzePageTool_generateLocators el).
         type c = ''role'' \<longrightarrow>
         reliability c =
           (if truthy (js_or (js_or (ariaLabel el) (text' el)) (title el)) then 95 else 70))
   \<and> (\<forall>c1 \<in> set (GetLocatorsTool_generateLocators e1).
       \<forall>c2 \<in> set (GetLocatorsTool_generateLocators e2).
         type c1 = type c2 \<longrightarrow> reliability c1 = reliability c2)
   \<and> (\<forall>c1 \<in> set (LocatorEngine_generateLocators e1).
       \<forall>c2 \<in> set (LocatorEngine_generateLocators e2).
         type c1 = type c2 \<longrightarrow> reliability c1 = reliability c2)"
proof -
  have sorted: "sorted_wrt (\<lambda>a b. reliability a \<ge> reliability b) (rankLocators cs)"
    unfolding rankLocators_def by (rule js_sort_descending)
  have stable: "\<forall>k. filter (\<lambda>c. reliability c = k) (rankLocators cs) = filter (\<lambda>c. reliability c = k) cs"
    unfolding rankLocators_def by (simp add: js_sort_stable)
  have perm: "mset (rankLocators cs) = mset cs"
    unfolding rankLocators_def by (rule js_sort_mset)
  have a: "\<forall>c1 \<in> set (AnalyzePageTool_generateLocators e1).
       \<forall>c2 \<in> set (AnalyzePageTool_generateLocators e2).
         type c1 = type c2 \<and> type c1 \<noteq> ''role'' \<longrightarrow> reliability c1 = reliability c2"
    using A_same_kind by blast
  have r: "\<forall>c \<in> set (AnalyzePageTool_generateLocators el).
         type c = ''role'' \<longrightarrow>
         reliability c =
           (if truthy (js_or (js_or (ariaLabel el) (text' el)) (title el)) then 95 else 70)"
    using A_role_score by blast
  have g: "\<forall>c1 \<in> set (GetLocatorsTool_generateLocators e1).
       \<forall>c2 \<in> set (GetLocatorsTool_generateLocators e2).
         type c1 = type c2 \<longrightarrow> reliability c1 = reliability c2"
    using G_same_kind by blast
  have l: "\<forall>c1 \<in> set (LocatorEngine_generateLocators e1).
       \<forall>c2 \<in> set (LocatorEngine_generateLocators e2).
         type c1 = type c2 \<longrightarrow> reliability c1 = reliability c2"
    using L_same_kind by blast
  from sorted stable perm A_distinct G_distinct L_distinct a r g l show ?thesis
    by blast
qed

theorem rank_sorted_stable_witness:
  "sorted_wrt (\<lambda>a b. reliability a \<ge> reliability b)
     (rankLocators (AnalyzePageTool_generateLocators login_button))
   \<and> reliability (AnalyzePageTool_generateLocators ok_button ! 1)
     = reliability (AnalyzePageTool_generateLocators login_button ! 3)
   \<and> reliability (AnalyzePageTool_generateLocators ok_button ! 0) = 95"
proof -
  have m1: "AnalyzePageTool_generateLocators ok_button ! 1
            \<in> set (AnalyzePageTool_generateLocators ok_button)"
    by code_simp
  have m0: "AnalyzePageTool_generateLocators ok_button ! 0
            \<in> set (AnalyzePageTool_generateLocators ok_button)"
    by code_simp
  have m2: "AnalyzePageTool_generateLocators login_button ! 3
            \<in> set (AnalyzePageTool_generateLocators login_button)"
    by code_simp
  have t: "type (AnalyzePageTool_generateLocators ok_button ! 1)
           = type (AnalyzePageTool_generateLocators login_button ! 3)
           \<and> type (AnalyzePageTool_generateLocators ok_button ! 1) \<noteq> ''role''
           \<and> type (AnalyzePageTool_generateLocators ok_button ! 0) = ''role''
           \<and> truthy (js_or (js_or (ariaLabel ok_button) (text' ok_button)) (title ok_button))"
    by code_simp
  from rank_sorted_stable
         [of "AnalyzePageTool_generateLocators login_button" ok_button ok_button login_button]
       m0 m1 m2 t
  show ?thesis by auto
qed

theorem same_kind_counterexample:
  "map (\<lambda>c. (type c, reliability c)) (AnalyzePageTool_generateLocators ok_button)
     = [(''role'', 95), (''text'', 75), (''xpath'', 40)]
   \<and> map (\<lambda>c. (type c, reliability c)) (AnalyzePageTool_generateLocators bare_button)
     = [(''role'', 70), (''xpath'', 40)]"
  by code_simp


section \<open>The fallback candidate\<close>

lemma blank_div_candidates:
  "AnalyzePageTool_generateLocators (blank ''div'')
     = [\<lparr>type = ''xpath'', locator = ''locator('' @ dq ''/html[1]/body[1]/div[1]'' @ '')'',
         reliability = 40, description = ''XPath - avoid unless necessary''\<rparr>]
   \<and> GetLocatorsTool_generateLocators (blank ''div'')
     = [\<lparr>type = ''xpath'', locator = ''locator('' @ dq ''/html[1]/body[1]/div[1]'' @ '')'',
         reliability = 40, description = ''XPath - avoid unless necessary''\<rparr>]
   \<and> map type (LocatorEngine_generateLocators (blank ''div'')) = [''css'', ''xpath'']
   \<and> generateSeleniumLocators (blank ''div'')
     = [selenium ''cssSelector'' ''CSS_SELECTOR'' ''CssSelector'' ''div'',
        selenium ''xpath'' ''XPATH'' ''XPath'' ''/html[1]/body[1]/div[1]'',
        selenium ''tagName'' ''TAG_NAME'' ''TagName'' ''div'']"
  by code_simp

text \<open>
  C4. For every element, also one without any optional attribute, each generator
  yields at least one candidate: the list of \<^verbatim>\<open>generateLocators\<close> (in all three files)
  is not empty and ends with the xpath candidate of reliability 40, and the list of
  \<^verbatim>\<open>generateSeleniumLocators\<close> is not empty and ends with the tag-name locator.
\<close>

theorem fallback_always:
  "AnalyzePageTool_generateLocators el \<noteq> []
   \<and> last (AnalyzePageTool_generateLocators el)
       = \<lparr>type = ''xpath'', locator = ''locator('' @ dq (xpath el) @ '')'', reliability = 40,
          description = ''XPath - avoid unless necessary''\<rparr>
   \<and> GetLocatorsTool_generateLocators el \<noteq> []
   \<and> last (GetLocatorsTool_generateLocators el)
       = \<lparr>type = ''xpath'', locator = ''locator('' @ dq (xpath el) @ '')'', reliability = 40,
          description = ''XPath - avoid unless necessary''\<rparr>
   \<and> LocatorEngine_generateLocators el \<noteq> []
   \<and> last (LocatorEngine_generateLocators el)
       = \<lparr>type = ''xpath'', locator = ''locator('' @ sq (xpath el) @ '')'', reliability = 40,
          description = ''XPath - avoid unless necessary''\<rparr>
   \<and> generateSeleniumLocators el \<noteq> []
   \<and> last (generateSeleniumLocators el)
       = selenium ''tagName'' ''TAG_NAME'' ''TagName'' (tagName el)"
  by (simp add: AnalyzePageTool_generateLocators_def GetLocatorsTool_generateLocators_def
      LocatorEngine_generateLocators_def generateSeleniumLocators_def)

theorem fallback_always_witness:
  "last (AnalyzePageTool_generateLocators (blank ''div''))
     = \<lparr>type = ''xpath'', locator = ''locator('' @ dq ''/html[1]/body[1]/div[1]'' @ '')'',
        reliability = 40, description = ''XPath - avoid unless necessary''\<rparr>
   \<and> length (AnalyzePageTool_generateLocators (blank ''div'')) = 1
   \<and> last (generateSeleniumLocators (blank ''div''))
     = selenium ''tagName'' ''TAG_NAME'' ''TagName'' ''div''
   \<and> length (generateSeleniumLocators (blank ''div'')) = 3"
  using fallback_always[of "blank ''div''"] blank_div_candidates
  by (simp add: blank_def)

section \<open>The login button\<close>

lemma lower_button: "toLowerCase ''button'' = ''button''"
  by code_simp

text \<open>
  C6. For a button with the test id \<^verbatim>\<open>login-btn\<close>, the label \<^verbatim>\<open>Login\<close> and the text
  \<^verbatim>\<open>Login\<close>, and without an id, a name, a placeholder or a role attribute, the ranked
  candidates start with the test-id candidate (98), then the role candidate with the
  name \<^verbatim>\<open>Login\<close> (95), then the label candidate: 90 in the two tools and 88 in
  \<^verbatim>\<open>LocatorEngine\<close>.
\<close>

theorem login_button_top_three:
  assumes "tagName el = ''button''" and "testId el = Some ''login-btn''"
    and "ariaLabel el = Some ''Login''" and "text' el = Some ''Login''"
    and "id' el = None" and "name el = None" and "placeholder el = None" and "role el = None"
  shows "take 3 (rankLocators (AnalyzePageTool_generateLocators el))
           = [\<lparr>type = ''testId'', locator = ''getByTestId('' @ sq ''login-btn'' @ '')'',
               reliability = 98, description = ''Best - explicitly set for testing''\<rparr>,
              \<lparr>type = ''role'',
               locator = ''getByRole('' @ sq ''button'' @ '', { name: '' @ sq ''Login'' @ '' })'',
               reliability = 95,
               description = ''Playwright recommended - accessible and stable''\<rparr>,
              \<lparr>type = ''label'', locator = ''getByLabel('' @ sq ''Login'' @ '')'',
               reliability = 90, description = ''Accessible label-based locator''\<rparr>]
         \<and> take 3 (rankLocators (GetLocatorsTool_generateLocators el))
           = [\<lparr>type = ''testId'', locator = ''getByTestId('' @ sq ''login-btn'' @ '')'',
               reliability = 98, description = ''Best - explicitly set for testing''\<rparr>,
              \<lparr>type = ''role'',
               locator = ''getByRole('' @ sq ''button'' @ '', { name: '' @ sq ''Login'' @ '' })'',
               reliability = 95,
               description = ''Playwright recommended - accessible and stable''\<rparr>,
              \<lparr>type = ''label'', locator = ''getByLabel('' @ sq ''Login'' @ '')'',
               reliability = 90, description = ''Accessible label-based locator''\<rparr>]
         \<and> take 3 (rankLocators (LocatorEngine_generateLocators el))
           = [\<lparr>type = ''testId'', locator = ''getByTestId('' @ sq ''login-btn'' @ '')'',
               reliability = 98, description = ''Best choice - explicitly set for testing''\<rparr>,
              \<lparr>type = ''role'',
               locator = ''getByRole('' @ sq ''button'' @ '', { name: '' @ sq ''Login'' @ '' })'',
               reliability = 95,
               description = ''Playwright recommended - accessible and stable''\<rparr>,
              \<lparr>type = ''label'', locator = ''getByLabel('' @ sq ''Login'' @ '')'',
               reliability = 88, description = ''Accessible label-based locator''\<rparr>]"
proof -
  have esc: "escape ''Login'' = ''Login''" "LocatorEngine_escape ''Login'' = ''Login''"
    by code_simp+
  have ra: "AnalyzePageTool_inferRole el = Some (Str ''button'')"
    using assms
    by (simp add: AnalyzePageTool_inferRole_def lower_button lookup_def roleMap_def
        jtruthy_def Let_def)
  have rg: "GetLocatorsTool_inferRole el = Some (Str ''button'')"
    using assms
    by (simp add: GetLocatorsTool_inferRole_def lower_button lookup_def roleMap_def
        jtruthy_def Let_def)
  have rl: "LocatorEngine_inferRole el = Some ''button''"
    using assms by (simp add: LocatorEngine_inferRole_def lower_button Let_def)
  show ?thesis
    using assms
    by (simp add: AnalyzePageTool_generateLocators_def GetLocatorsTool_generateLocators_def
        LocatorEngine_generateLocators_def ra rg rl esc when_truthy_def jtruthy_def
        role_of_def js_or_def truthy_def jsval_text_def rankLocators_def js_sort_def)
qed

theorem login_button_top_three_witness:
  "map (\<lambda>c. (type c, reliability c)) (take 3 (rankLocators (AnalyzePageTool_generateLocators login_button)))
     = [(''testId'', 98), (''role'', 95), (''label'', 90)]
   \<and> map (\<lambda>c. (type c, reliability c)) (take 3 (rankLocators (GetLocatorsTool_generateLocators login_button)))
     = [(''testId'', 98), (''role'', 95), (''label'', 90)]
   \<and> map (\<lambda>c. (type c, reliability c)) (take 3 (rankLocators (LocatorEngine_generateLocators login_button)))
     = [(''testId'', 98), (''role'', 95), (''label'', 88)]"
proof -
  have h: "tagName login_button = ''button''" "testId login_button = Some ''login-btn''"
    "ariaLabel login_button = Some ''Login''" "text' login_button = Some ''Login''"
    "id' login_button = None" "name login_button = None" "placeholder login_button = None"
    "role login_button = None"
    by (simp_all add: login_button_def blank_def)
  from login_button_top_three[OF h] show ?thesis by simp
qed


section \<open>The text candidate\<close>

lemma filter_when_truthy_none:
  "(\<And>s. \<not> P (f s)) \<Longrightarrow> filter P (when_truthy x f) = []"
  by (simp add: when_truthy_def split: option.splits)

lemma filter_when_truthy_all:
  "(\<And>s. P (f s)) \<Longrightarrow> filter P (when_truthy x f) = when_truthy x f"
  by (simp add: when_truthy_def split: option.splits)

lemma when_truthy_the:
  "when_truthy x f = (if truthy x then [f (the x)] else [])"
  by (simp add: when_truthy_def truthy_def split: option.splits)

lemma A_text_kind:
  "filter (\<lambda>c. type c = ''text'') (AnalyzePageTool_generateLocators el)
     = (if truthy (text' el) \<and> tagName el \<noteq> ''input'' \<and> tagName el \<noteq> ''textarea''
        then [\<lparr>type = ''text'', locator = ''getByText('' @ sq (escape (the (text' el))) @ '')'',
               reliability = 75, description = ''Text content - may break if text changes''\<rparr>]
        else [])"
  unfolding AnalyzePageTool_generateLocators_def filter_append
  by (simp add: filter_when_truthy_none filter_when_truthy_all when_truthy_the
      split: option.splits)

lemma G_text_kind:
  "filter (\<lambda>c. type c = ''text'') (GetLocatorsTool_generateLocators el)
     = (if truthy (text' el) \<and> tagName el \<noteq> ''input'' \<and> tagName el \<noteq> ''textarea''
        then [\<lparr>type = ''text'', locator = ''getByText('' @ sq (escape (the (text' el))) @ '')'',
               reliability = 75, description = ''Text content - may break if text changes''\<rparr>]
        else [])"
  unfolding GetLocatorsTool_generateLocators_def filter_append
  by (simp add: filter_when_truthy_none filter_when_truthy_all when_truthy_the
      split: option.splits)

lemma L_text_kind:
  "filter (\<lambda>c. type c = ''text'') (LocatorEngine_generateLocators el)
     = (if truthy (text' el) \<and> tagName el \<noteq> ''input''
        then [\<lparr>type = ''text'',
               locator = ''getByText('' @ sq (LocatorEngine_escape (the (text' el))) @ '')'',
               reliability = 75,
               description = ''Text content based - may break if text changes''\<rparr>]
        else [])"
  unfolding LocatorEngine_generateLocators_def filter_append
  by (simp add: filter_when_truthy_none filter_when_truthy_all when_truthy_the
      split: option.splits)

lemma A_label_kind:
  "filter (\<lambda>c. type c = ''label'') (AnalyzePageTool_generateLocators el)
     = when_truthy (ariaLabel el) (\<lambda>a.
         \<lparr>type = ''label'', locator = ''getByLabel('' @ sq (escape a) @ '')'', reliability = 90,
          description = ''Accessible label-based locator''\<rparr>)"
  unfolding AnalyzePageTool_generateLocators_def filter_append
  by (simp add: filter_when_truthy_none filter_when_truthy_all split: option.splits)

lemma A_placeholder_kind:
  "filter (\<lambda>c. type c = ''placeholder'') (AnalyzePageTool_generateLocators el)
     = when_truthy (placeholder el) (\<lambda>p.
         \<lparr>type = ''placeholder'', locator = ''getByPlaceholder('' @ sq (escape p) @ '')'',
          reliability = 85, description = ''Good for form inputs''\<rparr>)"
  unfolding AnalyzePageTool_generateLocators_def filter_append
  by (simp add: filter_when_truthy_none filter_when_truthy_all split: option.splits)

lemma G_label_kind:
  "filter (\<lambda>c. type c = ''label'') (GetLocatorsTool_generateLocators el)
     = when_truthy (ariaLabel el) (\<lambda>a.
         \<lparr>type = ''label'', locator = ''getByLabel('' @ sq (escape a) @ '')'', reliability = 90,
          description = ''Accessible label-based locator''\<rparr>)"
  unfolding GetLocatorsTool_generateLocators_def filter_append
  by (simp add: filter_when_truthy_none filter_when_truthy_all split: option.splits)

lemma G_placeholder_kind:
  "filter (\<lambda>c. type c = ''placeholder'') (GetLocatorsTool_generateLocators el)
     = when_truthy (placeholder el) (\<lambda>p.
         \<lparr>type = ''placeholder'', locator = ''getByPlaceholder('' @ sq (escape p) @ '')'',
          reliability = 85, description = ''Good for form inputs''\<rparr>)"
  unfolding GetLocatorsTool_generateLocators_def filter_append
  by (simp add: filter_when_truthy_none filter_when_truthy_all split: option.splits)

lemma G_role_kind:
  "filter (\<lambda>c. type c = ''role'') (GetLocatorsTool_generateLocators el)
     = (case role_of (role el) (GetLocatorsTool_inferRole el) of
          None \<Rightarrow> []
        | Some r \<Rightarrow>
            if jtruthy (Some r) then
              when_truthy (js_or (js_or (ariaLabel el) (text' el)) (title el)) (\<lambda>n.
                \<lparr>type = ''role'',
                 locator = ''getByRole('' @ sq (jsval_text r) @ '', { name: ''
                           @ sq (escape n) @ '' })'',
                 reliability = 95,
                 description = ''Playwright recommended - accessible and stable''\<rparr>)
            else [])"
  unfolding GetLocatorsTool_generateLocators_def filter_append
  by (simp add: filter_when_truthy_none filter_when_truthy_all split: option.splits)

lemma L_label_kind:
  "filter (\<lambda>c. type c = ''label'') (LocatorEngine_generateLocators el)
     = when_truthy (ariaLabel el) (\<lambda>a.
         \<lparr>type = ''label'', locator = ''getByLabel('' @ sq (LocatorEngine_escape a) @ '')'',
          reliability = 88, description = ''Accessible label-based locator''\<rparr>)"
  unfolding LocatorEngine_generateLocators_def filter_append
  by (simp add: filter_when_truthy_none filter_when_truthy_all split: option.splits)

lemma L_placeholder_kind:
  "filter (\<lambda>c. type c = ''placeholder'') (LocatorEngine_generateLocators el)
     = when_truthy (placeholder el) (\<lambda>p.
         \<lparr>type = ''placeholder'',
          locator = ''getByPlaceholder('' @ sq (LocatorEngine_escape p) @ '')'',
          reliability = 85, description = ''Good for form inputs''\<rparr>)"
  unfolding LocatorEngine_generateLocators_def filter_append
  by (simp add: filter_when_truthy_none filter_when_truthy_all split: option.splits)

lemma L_role_kind:
  "filter (\<lambda>c. type c = ''role'') (LocatorEngine_generateLocators el)
     = (case js_or (role el) (LocatorEngine_inferRole el) of
          None \<Rightarrow> []
        | Some r \<Rightarrow>
            if r \<noteq> [] then
              when_truthy (js_or (js_or (text' el) (ariaLabel el)) (title el)) (\<lambda>n.
                \<lparr>type = ''role'',
                 locator = ''getByRole('' @ sq r @ '', { name: '' @ sq (LocatorEngine_escape n)
                           @ '' })'',
                 reliability = 95,
                 description = ''Playwright recommended - accessible and stable''\<rparr>)
            else [])"
  unfolding LocatorEngine_generateLocators_def filter_append
  by (simp add: filter_when_truthy_none filter_when_truthy_all split: option.splits)

lemma filter_second_of_eight:
  assumes "filter P a = []" and "filter P b = []" and "filter P c = []" and "filter P d = []"
    and "filter P e = []" and "filter P f = []" and "filter P g = []"
  shows "filter P (a @ r @ b @ c @ d @ e @ f @ g) = filter P r"
  using assms by simp

lemma A_named_role_kind:
  "filter (\<lambda>c. type c = ''role'' \<and> reliability c = 95) (AnalyzePageTool_generateLocators el)
     = (case role_of (role el) (AnalyzePageTool_inferRole el) of
          None \<Rightarrow> []
        | Some r \<Rightarrow>
            if jtruthy (Some r) then
              when_truthy (js_or (js_or (ariaLabel el) (text' el)) (title el)) (\<lambda>n.
                \<lparr>type = ''role'',
                 locator = ''getByRole('' @ sq (jsval_text r) @ '', { name: ''
                           @ sq (escape n) @ '' })'',
                 reliability = 95,
                 description = ''Playwright recommended - accessible and stable''\<rparr>)
            else [])"
proof -
  have "filter (\<lambda>c. type c = ''role'' \<and> reliability c = 95) (AnalyzePageTool_generateLocators el)
        = filter (\<lambda>c. type c = ''role'' \<and> reliability c = 95)
            (case role_of (role el) (AnalyzePageTool_inferRole el) of
          None \<Rightarrow> []
        | Some r \<Rightarrow>
            if jtruthy (Some r) then
              (case js_or (js_or (ariaLabel el) (text' el)) (title el) of
                 None \<Rightarrow>
                   [\<lparr>type = ''role'', locator = ''getByRole('' @ sq (jsval_text r) @ '')'',
                     reliability = 70,
                     description = ''Role without name - may match multiple elements''\<rparr>]
               | Some n \<Rightarrow>
                   if n \<noteq> [] then
                     [\<lparr>type = ''role'',
                       locator = ''getByRole('' @ sq (jsval_text r) @ '', { name: ''
                                 @ sq (escape n) @ '' })'',
                       reliability = 95,
                       description = ''Playwright recommended - accessible and stable''\<rparr>]
                   else
                     [\<lparr>type = ''role'', locator = ''getByRole('' @ sq (jsval_text r) @ '')'',
                       reliability = 70,
                       description = ''Role without name - may match multiple elements''\<rparr>])
            else [])"
    unfolding AnalyzePageTool_generateLocators_def
    by (rule filter_second_of_eight) (simp_all add: filter_when_truthy_none)
  also have "\<dots> = (case role_of (role el) (AnalyzePageTool_inferRole el) of
          None \<Rightarrow> []
        | Some r \<Rightarrow>
            if jtruthy (Some r) then
              when_truthy (js_or (js_or (ariaLabel el) (text' el)) (title el)) (\<lambda>n.
                \<lparr>type = ''role'',
                 locator = ''getByRole('' @ sq (jsval_text r) @ '', { name: ''
                           @ sq (escape n) @ '' })'',
                 reliability = 95,
                 description = ''Playwright recommended - accessible and stable''\<rparr>)
            else [])"
    by (cases "role_of (role el) (AnalyzePageTool_inferRole el)";
        cases "js_or (js_or (ariaLabel el) (text' el)) (title el)")
       (simp_all add: when_truthy_def)
  finally show ?thesis .
qed

text \<open>
  X1. In \<^verbatim>\<open>AnalyzePageTool.generateLocators\<close> and \<^verbatim>\<open>GetLocatorsTool.generateLocators\<close>
  the candidates of kind \<^verbatim>\<open>text\<close> are: the one candidate of reliability 75 built from
  the escaped text, when the text is present and the tag is neither \<^verbatim>\<open>input\<close> nor
  \<^verbatim>\<open>textarea\<close>; none otherwise.
\<close>

theorem tools_text_candidate:
  "filter (\<lambda>c. type c = ''text'') (AnalyzePageTool_generateLocators el)
     = (if truthy (text' el) \<and> tagName el \<noteq> ''input'' \<and> tagName el \<noteq> ''textarea''
        then [\<lparr>type = ''text'', locator = ''getByText('' @ sq (escape (the (text' el))) @ '')'',
               reliability = 75, description = ''Text content - may break if text changes''\<rparr>]
        else [])
   \<and> filter (\<lambda>c. type c = ''text'') (GetLocatorsTool_generateLocators el)
     = (if truthy (text' el) \<and> tagName el \<noteq> ''input'' \<and> tagName el \<noteq> ''textarea''
        then [\<lparr>type = ''text'', locator = ''getByText('' @ sq (escape (the (text' el))) @ '')'',
               reliability = 75, description = ''Text content - may break if text changes''\<rparr>]
        else [])"
  using A_text_kind G_text_kind by blast

text \<open>
  X2. In \<^verbatim>\<open>LocatorEngine.generateLocators\<close> the candidates of kind \<^verbatim>\<open>text\<close> are: the
  one candidate of reliability 75, when the text is present and the tag is not
  \<^verbatim>\<open>input\<close>; none otherwise. A \<^verbatim>\<open>textarea\<close> is not excluded.
\<close>

theorem LocatorEngine_text_candidate:
  "filter (\<lambda>c. type c = ''text'') (LocatorEngine_generateLocators el)
     = (if truthy (text' el) \<and> tagName el \<noteq> ''input''
        then [\<lparr>type = ''text'',
               locator = ''getByText('' @ sq (LocatorEngine_escape (the (text' el))) @ '')'',
               reliability = 75,
               description = ''Text content based - may break if text changes''\<rparr>]
        else [])"
  by (rule L_text_kind)

text \<open>
  C8, at the input where the code departs from it. For a \<^verbatim>\<open>textarea\<close> with the text
  \<^verbatim>\<open>Notes\<close>, \<^verbatim>\<open>LocatorEngine.generateLocators\<close> emits a candidate of kind \<^verbatim>\<open>text\<close>
  (75); the two tools emit none.
\<close>

theorem textarea_text_candidate:
  "map (\<lambda>c. (type c, reliability c)) (LocatorEngine_generateLocators notes_textarea)
     = [(''role'', 95), (''text'', 75), (''css'', 60), (''xpath'', 40)]
   \<and> map (\<lambda>c. (type c, reliability c)) (AnalyzePageTool_generateLocators notes_textarea)
     = [(''role'', 95), (''xpath'', 40)]
   \<and> map (\<lambda>c. (type c, reliability c)) (GetLocatorsTool_generateLocators notes_textarea)
     = [(''role'', 95), (''xpath'', 40)]"
  by code_simp


section \<open>The role lookup\<close>

lemma text_not_inherited: "''text'' \<notin> set object_prototype_keys"
  by (simp add: object_prototype_keys_def)

lemma lookup_roleMap:
  "tag \<notin> set object_prototype_keys \<Longrightarrow>
   lookup roleMap tag =
     (if tag = ''button'' then Some (Str ''button'')
      else if tag = ''a'' then Some (Str ''link'')
      else if tag = ''select'' then Some (Str ''combobox'')
      else if tag = ''textarea'' then Some (Str ''textbox'')
      else if tag = ''img'' then Some (Str ''img'')
      else None)"
  by (simp add: lookup_def roleMap_def)

lemma lookup_inputRoles:
  "k \<notin> set object_prototype_keys \<Longrightarrow>
   lookup inputRoles k =
     (if k = ''submit'' then Some (Str ''button'')
      else if k = ''button'' then Some (Str ''button'')
      else if k = ''checkbox'' then Some (Str ''checkbox'')
      else if k = ''radio'' then Some (Str ''radio'')
      else if k = ''text'' then Some (Str ''textbox'')
      else if k = ''email'' then Some (Str ''textbox'')
      else if k = ''password'' then Some (Str ''textbox'')
      else if k = ''search'' then Some (Str ''searchbox'')
      else if k = ''number'' then Some (Str ''spinbutton'')
      else None)"
  by (simp add: lookup_def inputRoles_def)

lemma A_inferRole_table:
  assumes "toLowerCase (tagName el) \<notin> set object_prototype_keys"
    and "\<forall>t. type' el = Some t \<longrightarrow> toLowerCase t \<notin> set object_prototype_keys"
  shows "AnalyzePageTool_inferRole el
         = map_option Str (spec_inferRole (toLowerCase (tagName el))
                             (map_option toLowerCase (type' el)))"
proof (cases "type' el")
  case None
  with assms(1) show ?thesis
    by (simp add: AnalyzePageTool_inferRole_def spec_inferRole_def lookup_roleMap
        lookup_inputRoles text_not_inherited jtruthy_def js_or_def truthy_def Let_def)
next
  case (Some t)
  with assms(2) have "toLowerCase t \<notin> set object_prototype_keys" by simp
  with Some assms(1) show ?thesis
    by (simp add: AnalyzePageTool_inferRole_def spec_inferRole_def lookup_roleMap
        lookup_inputRoles text_not_inherited jtruthy_def js_or_def truthy_def Let_def)
qed

lemma G_inferRole_eq: "GetLocatorsTool_inferRole el = AnalyzePageTool_inferRole el"
  by (simp add: GetLocatorsTool_inferRole_def AnalyzePageTool_inferRole_def)

lemma toLowerChar_not_upper:
  "\<not> (65 \<le> (of_char (toLowerChar c) :: nat) \<and> (of_char (toLowerChar c) :: nat) \<le> 90)"
proof -
  have "(of_char c :: nat) < 256" by simp
  then show ?thesis
    by (auto simp: toLowerChar_def Let_def)
qed

lemma toLowerCase_nth_not_upper:
  assumes "toLowerCase s = k" and "i < length k"
  shows "\<not> (65 \<le> (of_char (k ! i) :: nat) \<and> (of_char (k ! i) :: nat) \<le> 90)"
proof -
  from assms have "k ! i = toLowerChar (s ! i)"
    by (auto simp: toLowerCase_def)
  then show ?thesis
    by (simp only: toLowerChar_not_upper not_False_eq_True)
qed

lemma lower_not_inherited:
  "toLowerCase s \<noteq> ''__defineGetter__''"
  "toLowerCase s \<noteq> ''__defineSetter__''"
  "toLowerCase s \<noteq> ''hasOwnProperty''"
  "toLowerCase s \<noteq> ''__lookupGetter__''"
  "toLowerCase s \<noteq> ''__lookupSetter__''"
  "toLowerCase s \<noteq> ''isPrototypeOf''"
  "toLowerCase s \<noteq> ''propertyIsEnumerable''"
  "toLowerCase s \<noteq> ''toString''"
  "toLowerCase s \<noteq> ''valueOf''"
  "toLowerCase s \<noteq> ''toLocaleString''"
  using toLowerCase_nth_not_upper[of s "''__defineGetter__''" 8]
    toLowerCase_nth_not_upper[of s "''__defineSetter__''" 8]
    toLowerCase_nth_not_upper[of s "''hasOwnProperty''" 3]
    toLowerCase_nth_not_upper[of s "''__lookupGetter__''" 8]
    toLowerCase_nth_not_upper[of s "''__lookupSetter__''" 8]
    toLowerCase_nth_not_upper[of s "''isPrototypeOf''" 2]
    toLowerCase_nth_not_upper[of s "''propertyIsEnumerable''" 8]
    toLowerCase_nth_not_upper[of s "''toString''" 2]
    toLowerCase_nth_not_upper[of s "''valueOf''" 5]
    toLowerCase_nth_not_upper[of s "''toLocaleString''" 2]
  by auto

lemma inherited_names_reached:
  assumes "toLowerCase s \<in> set object_prototype_keys"
  shows "toLowerCase s = ''constructor'' \<or> toLowerCase s = ''__proto__''"
  using assms lower_not_inherited[of s]
  by (simp add: object_prototype_keys_def)


lemma search_input_facts:
  "toLowerCase (tagName search_input) \<noteq> ''constructor''"
  "type' search_input = Some ''search''"
  "toLowerCase ''search'' \<noteq> ''constructor'' \<and> toLowerCase ''search'' \<noteq> ''__proto__''"
  "toLowerCase (tagName search_input) \<noteq> ''__proto__''"
  "spec_inferRole (toLowerCase (tagName search_input))
     (map_option toLowerCase (type' search_input)) = Some ''searchbox''"
  by code_simp+

text \<open>
  X3. \<^verbatim>\<open>inferRole\<close> of the two tools follows the lookup of the specification on the
  lowercased tag and type, for every element whose lowercased tag and type are neither
  \<^verbatim>\<open>constructor\<close> nor \<^verbatim>\<open>__proto__\<close>, the two names that the tables inherit from
  \<^verbatim>\<open>Object.prototype\<close> and that a lowercased key can be.
\<close>

theorem tools_inferRole_table:
  assumes "toLowerCase (tagName el) \<noteq> ''constructor''"
    and "toLowerCase (tagName el) \<noteq> ''__proto__''"
    and "\<forall>t. type' el = Some t \<longrightarrow>
           toLowerCase t \<noteq> ''constructor'' \<and> toLowerCase t \<noteq> ''__proto__''"
  shows "AnalyzePageTool_inferRole el
           = map_option Str (spec_inferRole (toLowerCase (tagName el))
                               (map_option toLowerCase (type' el)))
         \<and> GetLocatorsTool_inferRole el
           = map_option Str (spec_inferRole (toLowerCase (tagName el))
                               (map_option toLowerCase (type' el)))"
proof -
  have 1: "toLowerCase (tagName el) \<notin> set object_prototype_keys"
    using assms(1,2) inherited_names_reached[of "tagName el"] by blast
  have 2: "\<forall>t. type' el = Some t \<longrightarrow> toLowerCase t \<notin> set object_prototype_keys"
    using assms(3) inherited_names_reached by blast
  from A_inferRole_table[OF 1 2] G_inferRole_eq[of el] show ?thesis by simp
qed

theorem tools_inferRole_table_witness:
  "AnalyzePageTool_inferRole search_input = Some (Str ''searchbox'')
   \<and> GetLocatorsTool_inferRole search_input = Some (Str ''searchbox'')"
proof -
  have h: "\<forall>t. type' search_input = Some t \<longrightarrow>
             toLowerCase t \<noteq> ''constructor'' \<and> toLowerCase t \<noteq> ''__proto__''"
    using search_input_facts(2,3) by simp
  from tools_inferRole_table[OF search_input_facts(1) search_input_facts(4) h]
    search_input_facts(5)
  show ?thesis by simp
qed

text \<open>
  C7, at the inputs where the code departs from it. For \<^verbatim>\<open><input type="search">\<close> and
  \<^verbatim>\<open><input type="number">\<close>, \<^verbatim>\<open>LocatorEngine.inferRole\<close> returns \<^verbatim>\<open>textbox\<close>, where the
  lookup of the specification and the two tools give \<^verbatim>\<open>searchbox\<close> and \<^verbatim>\<open>spinbutton\<close>.
  For the tag \<^verbatim>\<open>constructor\<close>, which is outside the table, \<^verbatim>\<open>inferRole\<close> of the tools
  returns the member that the table inherits under that name, and not \<^verbatim>\<open>null\<close>.
\<close>

theorem inferRole_divergence:
  "LocatorEngine_inferRole search_input = Some ''textbox''
   \<and> LocatorEngine_inferRole number_input = Some ''textbox''
   \<and> AnalyzePageTool_inferRole search_input = Some (Str ''searchbox'')
   \<and> AnalyzePageTool_inferRole number_input = Some (Str ''spinbutton'')
   \<and> GetLocatorsTool_inferRole search_input = Some (Str ''searchbox'')
   \<and> GetLocatorsTool_inferRole number_input = Some (Str ''spinbutton'')
   \<and> spec_inferRole ''input'' (Some ''search'') = Some ''searchbox''
   \<and> spec_inferRole ''input'' (Some ''number'') = Some ''spinbutton''
   \<and> AnalyzePageTool_inferRole (blank ''constructor'') = Some (Inherited ''constructor'')
   \<and> spec_inferRole ''constructor'' None = None"
  by code_simp


section \<open>Escaping\<close>

lemma replace_all_append:
  "replace_all c rep (xs @ ys) = replace_all c rep xs @ replace_all c rep ys"
  by (simp add: replace_all_def)

lemma replace_all_Nil: "replace_all c rep [] = []"
  by (simp add: replace_all_def)

lemma replace_all_Cons:
  "replace_all c rep (x # xs) = (if x = c then rep else [x]) @ replace_all c rep xs"
  by (simp add: replace_all_def)

lemma backslash_not_quote: "backslash \<noteq> quote"
  by (simp add: backslash_def quote_def)

lemma two_passes_one_pass:
  "replace_all quote [backslash, quote] (replace_all backslash [backslash, backslash] str)
     = concat (map spec_escape_char str)"
proof (induction str)
  case Nil
  show ?case by (simp add: replace_all_Nil)
next
  case (Cons c cs)
  have "replace_all quote [backslash, quote]
          (replace_all backslash [backslash, backslash] (c # cs))
        = replace_all quote [backslash, quote] (if c = backslash then [backslash, backslash] else [c])
          @ replace_all quote [backslash, quote]
              (replace_all backslash [backslash, backslash] cs)"
    by (simp only: replace_all_Cons replace_all_append)
  also have "replace_all quote [backslash, quote]
               (if c = backslash then [backslash, backslash] else [c])
             = spec_escape_char c"
    using backslash_not_quote
    by (auto simp: replace_all_Cons replace_all_Nil spec_escape_char_def)
  finally show ?case
    using Cons.IH by simp
qed

lemma escape_is_spec: "escape str = spec_escape str"
  by (simp add: escape_def spec_escape_def MAX_TEXT_LENGTH_def two_passes_one_pass)

lemma escape_bounded: "length (escape str) \<le> MAX_TEXT_LENGTH"
  by (simp add: escape_def)

lemma extract_text_bounded:
  "extract_text n raw = Some t \<Longrightarrow> length t \<le> n \<and> t \<noteq> []"
  by (auto simp: extract_text_def Let_def split: option.splits if_splits)

lemma LocatorEngine_escape_quotes:
  "backslash \<notin> set str \<Longrightarrow>
   LocatorEngine_escape str = take 50 (concat (map spec_escape_char str))"
proof -
  assume "backslash \<notin> set str"
  then have "replace_all quote [backslash, quote] str = concat (map spec_escape_char str)"
    by (induction str) (auto simp: replace_all_Cons replace_all_Nil spec_escape_char_def)
  then show ?thesis by (simp add: LocatorEngine_escape_def)
qed

lemma escape_examples:
  "escape ([CHR ''O'', quote, CHR ''K'', backslash]) = [CHR ''O'', backslash, quote, CHR ''K'', backslash, backslash]"
  "backslash \<notin> set [CHR ''O'', quote, CHR ''K'']"
  "take 50 (concat (map spec_escape_char [CHR ''O'', quote, CHR ''K''])) = [CHR ''O'', backslash, quote, CHR ''K'']"
  "extract_text MAX_TEXT_LENGTH (Some ''  Sign in  '') = Some ''Sign in''"
  "extract_text 50 (Some ''  Sign in  '') = Some ''Sign in''"
  by code_simp+

lemma A_literals:
  assumes "c \<in> set (AnalyzePageTool_generateLocators el)"
  shows "(type c = ''label'' \<longrightarrow>
            locator c = ''getByLabel('' @ sq (escape (the (ariaLabel el))) @ '')'')
       \<and> (type c = ''placeholder'' \<longrightarrow>
            locator c = ''getByPlaceholder('' @ sq (escape (the (placeholder el))) @ '')'')
       \<and> (type c = ''text'' \<longrightarrow>
            locator c = ''getByText('' @ sq (escape (the (text' el))) @ '')'')
       \<and> (type c = ''role'' \<and> reliability c = 95 \<longrightarrow>
            (\<exists>r. locator c = ''getByRole('' @ sq r @ '', { name: ''
               @ sq (escape (the (js_or (js_or (ariaLabel el) (text' el)) (title el)))) @ '' })''))"
proof (intro conjI impI)
  assume "type c = ''label''"
  with assms have "c \<in> set (filter (\<lambda>c. type c = ''label'') (AnalyzePageTool_generateLocators el))"
    by simp
  then show "locator c = ''getByLabel('' @ sq (escape (the (ariaLabel el))) @ '')''"
    unfolding A_label_kind by (auto simp: when_truthy_the split: if_splits)
next
  assume "type c = ''placeholder''"
  with assms have "c \<in> set (filter (\<lambda>c. type c = ''placeholder'') (AnalyzePageTool_generateLocators el))"
    by simp
  then show "locator c = ''getByPlaceholder('' @ sq (escape (the (placeholder el))) @ '')''"
    unfolding A_placeholder_kind by (auto simp: when_truthy_the split: if_splits)
next
  assume "type c = ''text''"
  with assms have "c \<in> set (filter (\<lambda>c. type c = ''text'') (AnalyzePageTool_generateLocators el))"
    by simp
  then show "locator c = ''getByText('' @ sq (escape (the (text' el))) @ '')''"
    unfolding A_text_kind by (auto split: if_splits)
next
  assume "type c = ''role'' \<and> reliability c = 95"
  with assms have "c \<in> set (filter (\<lambda>c. type c = ''role'' \<and> reliability c = 95)
                      (AnalyzePageTool_generateLocators el))"
    by simp
  then show "\<exists>r. locator c = ''getByRole('' @ sq r @ '', { name: ''
               @ sq (escape (the (js_or (js_or (ariaLabel el) (text' el)) (title el)))) @ '' })''"
    unfolding A_named_role_kind by (auto simp: when_truthy_the split: option.splits if_splits)
qed

lemma G_literals:
  assumes "c \<in> set (GetLocatorsTool_generateLocators el)"
  shows "(type c = ''label'' \<longrightarrow>
            locator c = ''getByLabel('' @ sq (escape (the (ariaLabel el))) @ '')'')
       \<and> (type c = ''placeholder'' \<longrightarrow>
            locator c = ''getByPlaceholder('' @ sq (escape (the (placeholder el))) @ '')'')
       \<and> (type c = ''text'' \<longrightarrow>
            locator c = ''getByText('' @ sq (escape (the (text' el))) @ '')'')
       \<and> (type c = ''role'' \<and> reliability c = 95 \<longrightarrow>
            (\<exists>r. locator c = ''getByRole('' @ sq r @ '', { name: ''
               @ sq (escape (the (js_or (js_or (ariaLabel el) (text' el)) (title el)))) @ '' })''))"
proof (intro conjI impI)
  assume "type c = ''label''"
  with assms have "c \<in> set (filter (\<lambda>c. type c = ''label'') (GetLocatorsTool_generateLocators el))"
    by simp
  then show "locator c = ''getByLabel('' @ sq (escape (the (ariaLabel el))) @ '')''"
    unfolding G_label_kind by (auto simp: when_truthy_the split: if_splits)
next
  assume "type c = ''placeholder''"
  with assms have "c \<in> set (filter (\<lambda>c. type c = ''placeholder'') (GetLocatorsTool_generateLocators el))"
    by simp
  then show "locator c = ''getByPlaceholder('' @ sq (escape (the (placeholder el))) @ '')''"
    unfolding G_placeholder_kind by (auto simp: when_truthy_the split: if_splits)
next
  assume "type c = ''text''"
  with assms have "c \<in> set (filter (\<lambda>c. type c = ''text'') (GetLocatorsTool_generateLocators el))"
    by simp
  then show "locator c = ''getByText('' @ sq (escape (the (text' el))) @ '')''"
    unfolding G_text_kind by (auto split: if_splits)
next
  assume "type c = ''role'' \<and> reliability c = 95"
  with assms have "c \<in> set (filter (\<lambda>c. type c = ''role'') (GetLocatorsTool_generateLocators el))"
    by simp
  then show "\<exists>r. locator c = ''getByRole('' @ sq r @ '', { name: ''
               @ sq (escape (the (js_or (js_or (ariaLabel el) (text' el)) (title el)))) @ '' })''"
    unfolding G_role_kind by (auto simp: when_truthy_the split: option.splits if_splits)
qed

lemma L_literals:
  assumes "c \<in> set (LocatorEngine_generateLocators el)"
  shows "(type c = ''label'' \<longrightarrow>
            locator c = ''getByLabel('' @ sq (LocatorEngine_escape (the (ariaLabel el))) @ '')'')
       \<and> (type c = ''placeholder'' \<longrightarrow>
            locator c = ''getByPlaceholder('' @ sq (LocatorEngine_escape (the (placeholder el))) @ '')'')
       \<and> (type c = ''text'' \<longrightarrow>
            locator c = ''getByText('' @ sq (LocatorEngine_escape (the (text' el))) @ '')'')
       \<and> (type c = ''role'' \<and> reliability c = 95 \<longrightarrow>
            (\<exists>r. locator c = ''getByRole('' @ sq r @ '', { name: ''
               @ sq (LocatorEngine_escape (the (js_or (js_or (text' el) (ariaLabel el)) (title el))))
               @ '' })''))"
proof (intro conjI impI)
  assume "type c = ''label''"
  with assms have "c \<in> set (filter (\<lambda>c. type c = ''label'') (LocatorEngine_generateLocators el))"
    by simp
  then show "locator c = ''getByLabel('' @ sq (LocatorEngine_escape (the (ariaLabel el))) @ '')''"
    unfolding L_label_kind by (auto simp: when_truthy_the split: if_splits)
next
  assume "type c = ''placeholder''"
  with assms have "c \<in> set (filter (\<lambda>c. type c = ''placeholder'') (LocatorEngine_generateLocators el))"
    by simp
  then show "locator c = ''getByPlaceholder('' @ sq (LocatorEngine_escape (the (placeholder el))) @ '')''"
    unfolding L_placeholder_kind by (auto simp: when_truthy_the split: if_splits)
next
  assume "type c = ''text''"
  with assms have "c \<in> set (filter (\<lambda>c. type c = ''text'') (LocatorEngine_generateLocators el))"
    by simp
  then show "locator c = ''getByText('' @ sq (LocatorEngine_escape (the (text' el))) @ '')''"
    unfolding L_text_kind by (auto split: if_splits)
next
  assume "type c = ''role'' \<and> reliability c = 95"
  with assms have "c \<in> set (filter (\<lambda>c. type c = ''role'') (LocatorEngine_generateLocators el))"
    by simp
  then show "\<exists>r. locator c = ''getByRole('' @ sq r @ '', { name: ''
               @ sq (LocatorEngine_escape (the (js_or (js_or (text' el) (ariaLabel el)) (title el))))
               @ '' })''"
    unfolding L_role_kind by (auto simp: when_truthy_the split: option.splits if_splits)
qed

text \<open>
  C9, as amended. In \<^verbatim>\<open>AnalyzePageTool\<close> and \<^verbatim>\<open>GetLocatorsTool\<close>, every string that
  \<^verbatim>\<open>generateLocators\<close> writes as literal text into a locator (the role name, the label,
  the placeholder, the text) has gone through \<^verbatim>\<open>escape\<close>, which replaces every backslash
  with two backslashes and every single quote with a backslash and the quote, and cuts
  the result to 100 characters: \<^verbatim>\<open>MAX_TEXT_LENGTH\<close>, the bound of the text that their
  extraction records. In \<^verbatim>\<open>LocatorEngine\<close> these strings go through
  \<^verbatim>\<open>LocatorEngine.escape\<close>, which cuts its result to 50 characters, the bound of the text
  that its own extraction records, and which on a string without a backslash replaces
  every single quote with a backslash and the quote.
\<close>

theorem escape_spec:
  "escape str = spec_escape str
   \<and> length (escape str) \<le> 100
   \<and> MAX_TEXT_LENGTH = 100
   \<and> (\<forall>t. extract_text MAX_TEXT_LENGTH raw = Some t \<longrightarrow> length t \<le> 100)
   \<and> (\<forall>c \<in> set (AnalyzePageTool_generateLocators el) \<union> set (GetLocatorsTool_generateLocators el).
         (type c = ''label'' \<longrightarrow>
            locator c = ''getByLabel('' @ sq (escape (the (ariaLabel el))) @ '')'')
       \<and> (type c = ''placeholder'' \<longrightarrow>
            locator c = ''getByPlaceholder('' @ sq (escape (the (placeholder el))) @ '')'')
       \<and> (type c = ''text'' \<longrightarrow>
            locator c = ''getByText('' @ sq (escape (the (text' el))) @ '')'')
       \<and> (type c = ''role'' \<and> reliability c = 95 \<longrightarrow>
            (\<exists>r. locator c = ''getByRole('' @ sq r @ '', { name: ''
               @ sq (escape (the (js_or (js_or (ariaLabel el) (text' el)) (title el))))
               @ '' })'')))
   \<and> (backslash \<notin> set str \<longrightarrow>
        LocatorEngine_escape str = take 50 (concat (map spec_escape_char str)))
   \<and> length (LocatorEngine_escape str) \<le> 50
   \<and> (\<forall>t. extract_text 50 raw = Some t \<longrightarrow> length t \<le> 50)
   \<and> (\<forall>c \<in> set (LocatorEngine_generateLocators el).
         (type c = ''label'' \<longrightarrow>
            locator c = ''getByLabel('' @ sq (LocatorEngine_escape (the (ariaLabel el))) @ '')'')
       \<and> (type c = ''placeholder'' \<longrightarrow>
            locator c = ''getByPlaceholder(''
                        @ sq (LocatorEngine_escape (the (placeholder el))) @ '')'')
       \<and> (type c = ''text'' \<longrightarrow>
            locator c = ''getByText('' @ sq (LocatorEngine_escape (the (text' el))) @ '')'')
       \<and> (type c = ''role'' \<and> reliability c = 95 \<longrightarrow>
            (\<exists>r. locator c = ''getByRole('' @ sq r @ '', { name: ''
               @ sq (LocatorEngine_escape
                       (the (js_or (js_or (text' el) (ariaLabel el)) (title el))))
               @ '' })'')))"
proof -
  have 1: "escape str = spec_escape str"
    by (rule escape_is_spec)
  have 2: "length (escape str) \<le> 100"
    using escape_bounded[of str] by (simp add: MAX_TEXT_LENGTH_def)
  have 3: "MAX_TEXT_LENGTH = 100"
    by (rule MAX_TEXT_LENGTH_def)
  have 4: "\<forall>t. extract_text MAX_TEXT_LENGTH raw = Some t \<longrightarrow> length t \<le> 100"
    using extract_text_bounded[of MAX_TEXT_LENGTH raw] by (simp add: MAX_TEXT_LENGTH_def)
  have 5: "\<forall>c \<in> set (AnalyzePageTool_generateLocators el) \<union> set (GetLocatorsTool_generateLocators el).
         (type c = ''label'' \<longrightarrow>
            locator c = ''getByLabel('' @ sq (escape (the (ariaLabel el))) @ '')'')
       \<and> (type c = ''placeholder'' \<longrightarrow>
            locator c = ''getByPlaceholder('' @ sq (escape (the (placeholder el))) @ '')'')
       \<and> (type c = ''text'' \<longrightarrow>
            locator c = ''getByText('' @ sq (escape (the (text' el))) @ '')'')
       \<and> (type c = ''role'' \<and> reliability c = 95 \<longrightarrow>
            (\<exists>r. locator c = ''getByRole('' @ sq r @ '', { name: ''
               @ sq (escape (the (js_or (js_or (ariaLabel el) (text' el)) (title el))))
               @ '' })''))"
  proof
    fix c
    assume "c \<in> set (AnalyzePageTool_generateLocators el) \<union> set (GetLocatorsTool_generateLocators el)"
    then consider "c \<in> set (AnalyzePageTool_generateLocators el)"
      | "c \<in> set (GetLocatorsTool_generateLocators el)"
      by (rule UnE)
    then show "(type c = ''label'' \<longrightarrow>
            locator c = ''getByLabel('' @ sq (escape (the (ariaLabel el))) @ '')'')
       \<and> (type c = ''placeholder'' \<longrightarrow>
            locator c = ''getByPlaceholder('' @ sq (escape (the (placeholder el))) @ '')'')
       \<and> (type c = ''text'' \<longrightarrow>
            locator c = ''getByText('' @ sq (escape (the (text' el))) @ '')'')
       \<and> (type c = ''role'' \<and> reliability c = 95 \<longrightarrow>
            (\<exists>r. locator c = ''getByRole('' @ sq r @ '', { name: ''
               @ sq (escape (the (js_or (js_or (ariaLabel el) (text' el)) (title el))))
               @ '' })''))"
    proof cases
      case 1
      then show ?thesis by (rule A_literals)
    next
      case 2
      then show ?thesis by (rule G_literals)
    qed
  qed
  have 6: "backslash \<notin> set str \<longrightarrow>
        LocatorEngine_escape str = take 50 (concat (map spec_escape_char str))"
    using LocatorEngine_escape_quotes[of str] by (rule impI)
  have 7: "length (LocatorEngine_escape str) \<le> 50"
    by (simp add: LocatorEngine_escape_def)
  have 8: "\<forall>t. extract_text 50 raw = Some t \<longrightarrow> length t \<le> 50"
    using extract_text_bounded[of 50 raw] by simp
  have 9: "\<forall>c \<in> set (LocatorEngine_generateLocators el).
         (type c = ''label'' \<longrightarrow>
            locator c = ''getByLabel('' @ sq (LocatorEngine_escape (the (ariaLabel el))) @ '')'')
       \<and> (type c = ''placeholder'' \<longrightarrow>
            locator c = ''getByPlaceholder(''
                        @ sq (LocatorEngine_escape (the (placeholder el))) @ '')'')
       \<and> (type c = ''text'' \<longrightarrow>
            locator c = ''getByText('' @ sq (LocatorEngine_escape (the (text' el))) @ '')'')
       \<and> (type c = ''role'' \<and> reliability c = 95 \<longrightarrow>
            (\<exists>r. locator c = ''getByRole('' @ sq r @ '', { name: ''
               @ sq (LocatorEngine_escape
                       (the (js_or (js_or (text' el) (ariaLabel el)) (title el))))
               @ '' })''))"
  proof
    fix c
    assume "c \<in> set (LocatorEngine_generateLocators el)"
    then show "(type c = ''label'' \<longrightarrow>
            locator c = ''getByLabel('' @ sq (LocatorEngine_escape (the (ariaLabel el))) @ '')'')
       \<and> (type c = ''placeholder'' \<longrightarrow>
            locator c = ''getByPlaceholder(''
                        @ sq (LocatorEngine_escape (the (placeholder el))) @ '')'')
       \<and> (type c = ''text'' \<longrightarrow>
            locator c = ''getByText('' @ sq (LocatorEngine_escape (the (text' el))) @ '')'')
       \<and> (type c = ''role'' \<and> reliability c = 95 \<longrightarrow>
            (\<exists>r. locator c = ''getByRole('' @ sq r @ '', { name: ''
               @ sq (LocatorEngine_escape
                       (the (js_or (js_or (text' el) (ariaLabel el)) (title el))))
               @ '' })''))"
      by (rule L_literals)
  qed
  show ?thesis
    by (rule conjI[OF 1 conjI[OF 2 conjI[OF 3 conjI[OF 4 conjI[OF 5 conjI[OF 6
        conjI[OF 7 conjI[OF 8 9]]]]]]]])
qed

theorem escape_spec_witness:
  "spec_escape ([CHR ''O'', quote, CHR ''K'', backslash])
     = [CHR ''O'', backslash, quote, CHR ''K'', backslash, backslash]
   \<and> LocatorEngine_escape [CHR ''O'', quote, CHR ''K''] = [CHR ''O'', backslash, quote, CHR ''K'']"
proof -
  note t1 = escape_spec[of "[CHR ''O'', quote, CHR ''K'', backslash]" "Some ''  Sign in  ''"
      login_button]
  note t2 = escape_spec[of "[CHR ''O'', quote, CHR ''K'']" "Some ''  Sign in  ''" login_button]
  from t1 have "escape ([CHR ''O'', quote, CHR ''K'', backslash])
                = spec_escape ([CHR ''O'', quote, CHR ''K'', backslash])"
    by (rule conjunct1)
  then have a: "spec_escape ([CHR ''O'', quote, CHR ''K'', backslash])
     = [CHR ''O'', backslash, quote, CHR ''K'', backslash, backslash]"
    by (simp only: escape_examples(1))
  from t2 have "backslash \<notin> set [CHR ''O'', quote, CHR ''K''] \<longrightarrow>
        LocatorEngine_escape [CHR ''O'', quote, CHR ''K'']
        = take 50 (concat (map spec_escape_char [CHR ''O'', quote, CHR ''K'']))"
    by (elim conjE)
  with escape_examples(2) have "LocatorEngine_escape [CHR ''O'', quote, CHR ''K'']
        = take 50 (concat (map spec_escape_char [CHR ''O'', quote, CHR ''K'']))"
    by (rule rev_mp)
  then have b: "LocatorEngine_escape [CHR ''O'', quote, CHR ''K'']
                = [CHR ''O'', backslash, quote, CHR ''K'']"
    by (simp only: escape_examples(3))
  show ?thesis by (rule conjI[OF a b])
qed

theorem LocatorEngine_escape_counterexample:
  "LocatorEngine_escape [backslash] = [backslash]
   \<and> spec_escape [backslash] = [backslash, backslash]
   \<and> length (LocatorEngine_escape (replicate 60 (CHR ''a''))) = 50
   \<and> length (spec_escape (replicate 60 (CHR ''a''))) = 60"
  by code_simp

text \<open>
  X4. The cut comes after the escaping, so it can fall inside an escaped pair: a text of
  99 letters and a single quote is escaped to the 99 letters and a lone backslash.
\<close>

theorem escape_cuts_pair:
  "escape (replicate 99 (CHR ''a'') @ [quote]) = replicate 99 (CHR ''a'') @ [backslash]"
  by code_simp


section \<open>The matcher\<close>

lemma score_step_points:
  "score_step el (GetLocatorsTool_searchText el) score kw = score + spec_keyword_points el kw"
  by (auto simp: score_step_def spec_keyword_points_def Let_def)

lemma foldl_score:
  "foldl (score_step el (GetLocatorsTool_searchText el)) acc kws
     = acc + (\<Sum>kw\<leftarrow>kws. spec_keyword_points el kw)"
  by (induction kws arbitrary: acc) (simp_all add: score_step_points)

lemma score_of_spec: "score_of kws el = spec_score kws el"
  by (simp add: score_of_def spec_score_def foldl_score)

lemma keyword_points_bounds:
  "0 \<le> spec_keyword_points el kw"
  "str_includes (GetLocatorsTool_searchText el) kw \<Longrightarrow> 1 \<le> spec_keyword_points el kw"
  "\<not> str_includes (GetLocatorsTool_searchText el) kw \<Longrightarrow> spec_keyword_points el kw = 0"
  by (simp_all add: spec_keyword_points_def)

lemma sum_points_pos:
  "0 < (\<Sum>kw\<leftarrow>kws. spec_keyword_points el kw)
     \<longleftrightarrow> (\<exists>kw \<in> set kws. str_includes (GetLocatorsTool_searchText el) kw)"
proof (induction kws)
  case Nil
  show ?case by simp
next
  case (Cons k ks)
  have nonneg: "0 \<le> (\<Sum>kw\<leftarrow>ks. spec_keyword_points el kw)"
    by (rule sum_list_nonneg) (auto simp: keyword_points_bounds(1))
  show ?case
  proof (cases "str_includes (GetLocatorsTool_searchText el) k")
    case True
    with keyword_points_bounds(2)[OF True] nonneg show ?thesis by auto
  next
    case False
    with keyword_points_bounds(3)[OF False] Cons.IH show ?thesis by auto
  qed
qed

lemma score_pos_iff:
  "0 < score_of kws el \<longleftrightarrow> (\<exists>kw \<in> set kws. str_includes (GetLocatorsTool_searchText el) kw)"
  by (simp add: score_of_spec spec_score_def sum_points_pos)

lemma insert_by_map:
  "insert_by (\<lambda>a b. snd b - snd a) (x, f x) (map (\<lambda>e. (e, f e)) ys)
     = map (\<lambda>e. (e, f e)) (insert_by (\<lambda>a b. f b - f a) x ys)"
  by (induction ys) auto

lemma js_sort_pairs:
  "map fst (js_sort (\<lambda>a b. snd b - snd a) (map (\<lambda>e. (e, f e)) xs))
     = js_sort (\<lambda>a b. (f b :: int) - f a) xs"
proof -
  have "js_sort (\<lambda>a b. snd b - snd a) (map (\<lambda>e. (e, f e)) xs)
        = map (\<lambda>e. (e, f e)) (js_sort (\<lambda>a b. f b - f a) xs)"
    by (induction xs) (simp_all add: js_sort_def insert_by_map)
  then show ?thesis by (simp add: comp_def)
qed

lemma findMatchingElements_sort:
  "GetLocatorsTool_findMatchingElements els d
     = js_sort (\<lambda>a b. score_of (keywords_of d) b - score_of (keywords_of d) a)
         (filter (\<lambda>e. 0 < score_of (keywords_of d) e) els)"
proof -
  have "filter (\<lambda>s. 0 < snd s) (map (\<lambda>el. (el, score_of (keywords_of d) el)) els)
        = map (\<lambda>el. (el, score_of (keywords_of d) el))
            (filter (\<lambda>e. 0 < score_of (keywords_of d) e) els)"
    by (simp add: filter_map comp_def)
  then show ?thesis
    by (simp add: GetLocatorsTool_findMatchingElements_def Let_def js_sort_pairs)
qed

lemma LocatorEngine_findMatchingElements_filter:
  "LocatorEngine_findMatchingElements els d
     = filter (\<lambda>e. \<exists>kw \<in> set (keywords_of d). str_includes (LocatorEngine_searchText e) kw) els"
  by (simp add: LocatorEngine_findMatchingElements_def list_ex_iff)


lemma filter_score_positive:
  "filter (\<lambda>e. f e = k) (filter (\<lambda>e. 0 < f e) xs)
     = (if 0 < k then filter (\<lambda>e. f e = k) xs else [])" for f :: "'a \<Rightarrow> int"
  by (induction xs) auto

lemma login_examples:
  "keywords_of ''Login'' = [''login'']"
  "score_of [''login''] login_link = 1"
  "score_of [''login''] login_text_button = 3"
  "score_of [''login''] login_testid_div = 4"
  "GetLocatorsTool_findMatchingElements [login_link, login_text_button] ''Login''
     = [login_text_button, login_link]"
  "LocatorEngine_findMatchingElements [login_link, login_text_button] ''Login''
     = [login_link, login_text_button]"
  "LocatorEngine_findMatchingElements [login_testid_div] ''Login'' = []"
  "GetLocatorsTool_findMatchingElements [login_testid_div] ''Login'' = [login_testid_div]"
  by code_simp+

text \<open>
  C1, as amended. \<^verbatim>\<open>GetLocatorsTool.findMatchingElements\<close> returns exactly the elements
  whose score is positive, ordered by descending score, the elements of one score in
  their extraction order. The score is the sum, over the keywords of the lowercased
  description split at white space, of the points of each keyword that is a substring
  of the element's lowercased blob: 1, plus 3 if the keyword equals the lowercased id,
  plus 3 if the lowercased test id contains it, plus 2 each if the lowercased label,
  text or placeholder contains it. \<^verbatim>\<open>LocatorEngine.findMatchingElements\<close> computes no
  score and does not reorder: it returns, in extraction order, the elements whose own
  blob (without role and test id) contains some keyword.
\<close>

theorem matcher_scores:
  "score_of (keywords_of d) el = spec_score (keywords_of d) el
   \<and> sorted_wrt (\<lambda>a b. score_of (keywords_of d) a \<ge> score_of (keywords_of d) b)
       (GetLocatorsTool_findMatchingElements els d)
   \<and> (\<forall>k. filter (\<lambda>e. score_of (keywords_of d) e = k) (GetLocatorsTool_findMatchingElements els d)
          = (if 0 < k then filter (\<lambda>e. score_of (keywords_of d) e = k) els else []))
   \<and> mset (GetLocatorsTool_findMatchingElements els d)
       = mset (filter (\<lambda>e. 0 < score_of (keywords_of d) e) els)
   \<and> LocatorEngine_findMatchingElements els d
       = filter (\<lambda>e. \<exists>kw \<in> set (keywords_of d). str_includes (LocatorEngine_searchText e) kw) els"
proof -
  let ?f = "score_of (keywords_of d)"
  have s: "GetLocatorsTool_findMatchingElements els d
           = js_sort (\<lambda>a b. ?f b - ?f a) (filter (\<lambda>e. 0 < ?f e) els)"
    by (rule findMatchingElements_sort)
  have 1: "sorted_wrt (\<lambda>a b. ?f a \<ge> ?f b) (GetLocatorsTool_findMatchingElements els d)"
    unfolding s by (rule js_sort_descending)
  have 2: "\<forall>k. filter (\<lambda>e. ?f e = k) (GetLocatorsTool_findMatchingElements els d)
               = (if 0 < k then filter (\<lambda>e. ?f e = k) els else [])"
    unfolding s by (simp only: js_sort_stable filter_score_positive) simp
  have 3: "mset (GetLocatorsTool_findMatchingElements els d) = mset (filter (\<lambda>e. 0 < ?f e) els)"
    unfolding s by (rule js_sort_mset)
  from score_of_spec 1 2 3 LocatorEngine_findMatchingElements_filter show ?thesis
    by blast
qed

theorem matcher_scores_witness:
  "spec_score [''login''] login_text_button = 3
   \<and> sorted_wrt (\<lambda>a b. score_of [''login''] a \<ge> score_of [''login''] b)
       [login_text_button, login_link]
   \<and> filter (\<lambda>e. score_of [''login''] e = 3) [login_text_button, login_link]
       = filter (\<lambda>e. score_of [''login''] e = 3) [login_link, login_text_button]"
proof -
  note m = matcher_scores[of "''Login''" login_text_button "[login_link, login_text_button]",
      unfolded login_examples(1) login_examples(5)]
  from m have "score_of [''login''] login_text_button = spec_score [''login''] login_text_button"
    by (rule conjunct1)
  then have a: "spec_score [''login''] login_text_button = 3"
    by (simp only: login_examples(3))
  from m have b: "sorted_wrt (\<lambda>a b. score_of [''login''] a \<ge> score_of [''login''] b)
       [login_text_button, login_link]"
    by blast
  from m have "\<forall>k. filter (\<lambda>e. score_of [''login''] e = k) [login_text_button, login_link]
          = (if 0 < k then filter (\<lambda>e. score_of [''login''] e = k) [login_link, login_text_button]
             else [])"
    by blast
  then have "filter (\<lambda>e. score_of [''login''] e = 3) [login_text_button, login_link]
          = (if 0 < (3::int) then filter (\<lambda>e. score_of [''login''] e = 3) [login_link, login_text_button]
             else [])"
    by (rule spec)
  then have c: "filter (\<lambda>e. score_of [''login''] e = 3) [login_text_button, login_link]
       = filter (\<lambda>e. score_of [''login''] e = 3) [login_link, login_text_button]"
    by simp
  from a b c show ?thesis by blast
qed

theorem LocatorEngine_matcher_counterexample:
  "LocatorEngine_findMatchingElements [login_link, login_text_button] ''Login''
     = [login_link, login_text_button]
   \<and> score_of (keywords_of ''Login'') login_link = 1
   \<and> score_of (keywords_of ''Login'') login_text_button = 3
   \<and> LocatorEngine_findMatchingElements [login_testid_div] ''Login'' = []
   \<and> score_of (keywords_of ''Login'') login_testid_div = 4
   \<and> keywords_of ''Login'' = [''login'']
   \<and> id' login_id_button = Some ''Login''
   \<and> score_of (keywords_of ''Login'') login_id_button = 4"
  by code_simp

section \<open>The blank description\<close>

lemma space_lower: "is_space c \<Longrightarrow> toLowerChar c = c"
  by (auto simp: is_space_def toLowerChar_def Let_def)

lemma spaces_lower: "\<forall>c \<in> set d. is_space c \<Longrightarrow> toLowerCase d = d"
  by (induction d) (simp_all add: toLowerCase_def space_lower)

lemma split_sep_spaces: "\<forall>c \<in> set cs. is_space c \<Longrightarrow> split_sep cs = [[]]"
  by (induction cs) simp_all

lemma split_ws_spaces:
  "\<forall>c \<in> set d. is_space c \<Longrightarrow> split_ws d = (if d = [] then [[]] else [[], []])"
  by (cases d) (simp_all add: split_ws_def split_sep_spaces)

lemma keywords_of_spaces:
  "\<forall>c \<in> set d. is_space c \<Longrightarrow> keywords_of d = (if d = [] then [[]] else [[], []])"
  by (simp add: keywords_of_def spaces_lower split_ws_spaces)

lemma blank_query_examples:
  "\<forall>c \<in> set ''  ''. is_space c"
  "score_of [[], []] login_text_button = 6"
  by code_simp+

text \<open>
  C10, as amended. The empty description splits into the one keyword \<^verbatim>\<open>""\<close>, and a
  description of white space only splits into two keywords, both \<^verbatim>\<open>""\<close>. In both cases
  the empty string is a substring of every blob, every element has a positive score,
  \<^verbatim>\<open>GetLocatorsTool.findMatchingElements\<close> returns every extracted element (in the order
  of the scores) and \<^verbatim>\<open>LocatorEngine.findMatchingElements\<close> returns the extracted list
  as it is.
\<close>

theorem blank_query_matches_all:
  assumes "\<forall>c \<in> set d. is_space c"
  shows "keywords_of d = (if d = [] then [[]] else [[], []])
         \<and> str_includes (GetLocatorsTool_searchText el) []
         \<and> str_includes (LocatorEngine_searchText el) []
         \<and> 0 < score_of (keywords_of d) el
         \<and> mset (GetLocatorsTool_findMatchingElements els d) = mset els
         \<and> LocatorEngine_findMatchingElements els d = els"
proof -
  have k: "keywords_of d = (if d = [] then [[]] else [[], []])"
    using assms by (rule keywords_of_spaces)
  then have e: "[] \<in> set (keywords_of d)" by simp
  have p: "0 < score_of (keywords_of d) e" for e
    using e includes_empty by (auto simp: score_pos_iff)
  have g: "GetLocatorsTool_findMatchingElements els d
           = js_sort (\<lambda>a b. score_of (keywords_of d) b - score_of (keywords_of d) a) els"
    by (simp add: findMatchingElements_sort p)
  have m: "mset (GetLocatorsTool_findMatchingElements els d) = mset els"
    unfolding g by (rule js_sort_mset)
  have "\<forall>x \<in> set els. \<exists>kw \<in> set (keywords_of d). str_includes (LocatorEngine_searchText x) kw"
    using e includes_empty by blast
  then have l: "LocatorEngine_findMatchingElements els d = els"
    by (simp add: LocatorEngine_findMatchingElements_filter)
  from k p m l includes_empty show ?thesis by blast
qed

theorem blank_query_matches_all_witness:
  "keywords_of ''  '' = [[], []]
   \<and> 0 < score_of [[], []] login_text_button
   \<and> mset (GetLocatorsTool_findMatchingElements [login_link, login_text_button] ''  '')
     = mset [login_link, login_text_button]
   \<and> LocatorEngine_findMatchingElements [login_link, login_text_button] ''  ''
     = [login_link, login_text_button]"
proof -
  note m = blank_query_matches_all[OF blank_query_examples(1), of login_text_button
      "[login_link, login_text_button]"]
  from m have k: "keywords_of ''  '' = [[], []]" by simp
  from m have "0 < score_of (keywords_of ''  '') login_text_button" by blast
  then have p: "0 < score_of [[], []] login_text_button" by (simp only: k)
  from m k p show ?thesis by blast
qed

theorem blank_query_counterexample:
  "keywords_of '' '' = [[], []] \<and> keywords_of [CHR 0x09, CHR 0x0A] = [[], []]
   \<and> keywords_of [] = [[]]"
  by code_simp


section \<open>The counts of \<^verbatim>\<open>analyze_page\<close>\<close>

lemma execute_fields:
  assumes "scan u = Inr allElements"
  shows "\<exists>r. AnalyzePageTool_execute scan u elementTypes = Inr r
     \<and> totalElements r = length allElements
     \<and> returnedElements r = min (length (AnalyzePageTool_filter allElements elementTypes)) MAX_ELEMENTS
     \<and> truncated r = (length (AnalyzePageTool_filter allElements elementTypes) > MAX_ELEMENTS)
     \<and> length (elements r) = returnedElements r
     \<and> url r = u"
  using assms by (simp add: AnalyzePageTool_execute_def Let_def min_def)

lemma filter_absent:
  "AnalyzePageTool_filter allElements None = allElements"
  "AnalyzePageTool_filter allElements (Some []) = allElements"
  by (simp_all add: AnalyzePageTool_filter_def)

text \<open>
  X5. For every call of \<^verbatim>\<open>AnalyzePageTool.execute\<close> that returns, with \<open>F\<close> the number
  of elements left by the filter: \<open>truncated\<close> is true exactly when \<open>F\<close> exceeds 50,
  \<open>returnedElements\<close> is the smaller of \<open>F\<close> and 50 and is the length of \<open>elements\<close>, and
  \<open>totalElements\<close> is the number of elements extracted from the page, before the filter;
  that number is \<open>F\<close> when no element type, or an empty list of them, is given.
\<close>

theorem execute_counts:
  assumes "scan u = Inr allElements"
    and "AnalyzePageTool_execute scan u elementTypes = Inr r"
  shows "(truncated r \<longleftrightarrow> length (AnalyzePageTool_filter allElements elementTypes) > 50)
       \<and> returnedElements r = min (length (AnalyzePageTool_filter allElements elementTypes)) 50
       \<and> length (elements r) = returnedElements r
       \<and> totalElements r = length allElements
       \<and> (elementTypes = None \<or> elementTypes = Some [] \<longrightarrow>
            totalElements r = length (AnalyzePageTool_filter allElements elementTypes))"
proof -
  from execute_fields[of scan u allElements elementTypes, OF assms(1)] assms(2)
  have f: "totalElements r = length allElements"
    "returnedElements r = min (length (AnalyzePageTool_filter allElements elementTypes)) MAX_ELEMENTS"
    "truncated r = (length (AnalyzePageTool_filter allElements elementTypes) > MAX_ELEMENTS)"
    "length (elements r) = returnedElements r"
    by auto
  then show ?thesis
    using filter_absent[of allElements] by (auto simp: MAX_ELEMENTS_def)
qed

theorem execute_counts_witness:
  "\<exists>r. AnalyzePageTool_execute many_buttons ''http://localhost/'' None = Inr r
       \<and> totalElements r = 75 \<and> returnedElements r = 50 \<and> truncated r"
proof -
  have s: "many_buttons ''http://localhost/'' = Inr (replicate 75 bare_button)"
    by (simp add: many_buttons_def)
  from execute_fields[of many_buttons "''http://localhost/''" "replicate 75 bare_button" None, OF s]
  obtain r where r: "AnalyzePageTool_execute many_buttons ''http://localhost/'' None = Inr r"
    by blast
  from execute_counts[OF s r] have "totalElements r = 75 \<and> returnedElements r = 50 \<and> truncated r"
    by (simp add: filter_absent)
  with r show ?thesis by blast
qed

text \<open>
  C3, at the input where the code departs from it. On a page with a button and a search
  field, the element type \<^verbatim>\<open>button\<close> leaves one element; \<^verbatim>\<open>AnalyzePageTool.execute\<close>
  reports \<open>totalElements = 2\<close>, the count before the filter, with
  \<open>returnedElements = 1\<close> and \<open>truncated = false\<close>. \<^verbatim>\<open>LocatorEngine.analyzePage\<close> reports
  \<open>totalElements = 1\<close> there.
\<close>

theorem totalElements_before_filter:
  "map_sum id (\<lambda>r. (totalElements r, returnedElements r, truncated r))
      (AnalyzePageTool_execute two_elements ''http://localhost/'' (Some [''button'']))
     = Inr (2, 1, False)
   \<and> length (AnalyzePageTool_filter [bare_button, search_input] (Some [''button''])) = 1
   \<and> map_sum id le_totalElements
        (LocatorEngine_analyzePage two_elements ''http://localhost/'' (Some [''button'']))
     = Inr 1"
  by code_simp


section \<open>The locator validator: cardinality and failures\<close>

lemma validateLocator_returns:
  "navigateTo u = Inr page \<Longrightarrow>
   \<exists>r. LocatorEngine_validateLocator navigateTo parseLocatorString locator_count u str = Inr r"
  by (simp add: LocatorEngine_validateLocator_def split: sum.splits)

lemma validateLocator_flags:
  "LocatorEngine_validateLocator navigateTo parseLocatorString locator_count u str = Inr r \<Longrightarrow>
   isValid r = (matchCount r > 0) \<and> isUnique r = (matchCount r = 1)"
  by (auto simp: LocatorEngine_validateLocator_def split: sum.splits)

lemma validateLocator_caught:
  assumes "navigateTo u = Inr page"
    and "parseLocatorString page str = Inl e
         \<or> (\<exists>loc. parseLocatorString page str = Inr loc \<and> locator_count loc = Inl e)"
  shows "LocatorEngine_validateLocator navigateTo parseLocatorString locator_count u str
         = Inr \<lparr>isValid = False, matchCount = 0, isUnique = False,
                suggestions = [''Invalid locator syntax: '' @ message_of e]\<rparr>"
  using assms by (auto simp: LocatorEngine_validateLocator_def)

lemma demo_run:
  "demo_navigateTo ''http://localhost/'' = Inr 0"
  "demo_parse 0 ''#a['' = Inr ''#a[''"
  "demo_count ''#a['' = Inl (Error ''Unexpected token'')"
  "message_of (Error ''Unexpected token'') = ''Unexpected token''"
  by (simp_all add: demo_navigateTo_def demo_parse_def demo_count_def message_of_def)

text \<open>
  C2. Every result of \<^verbatim>\<open>validateLocator\<close> has \<open>isValid = (matchCount > 0)\<close> and
  \<open>isUnique = (matchCount = 1)\<close>. When the page has loaded, the call returns a result;
  and when parsing the locator string or counting its matches throws, that result is
  \<open>isValid = false\<close>, \<open>matchCount = 0\<close>, \<open>isUnique = false\<close>, with one suggestion that
  ends with the message of what was thrown.
\<close>

theorem validateLocator_consistent:
  "(\<forall>r. LocatorEngine_validateLocator navigateTo parseLocatorString locator_count u str = Inr r
        \<longrightarrow> isValid r = (matchCount r > 0) \<and> isUnique r = (matchCount r = 1))
   \<and> (\<forall>page. navigateTo u = Inr page
        \<longrightarrow> (\<exists>r. LocatorEngine_validateLocator navigateTo parseLocatorString locator_count
                    u str = Inr r))
   \<and> (\<forall>page e.
        navigateTo u = Inr page
        \<and> (parseLocatorString page str = Inl e
           \<or> (\<exists>loc. parseLocatorString page str = Inr loc \<and> locator_count loc = Inl e))
        \<longrightarrow> LocatorEngine_validateLocator navigateTo parseLocatorString locator_count u str
            = Inr \<lparr>isValid = False, matchCount = 0, isUnique = False,
                   suggestions = [''Invalid locator syntax: '' @ message_of e]\<rparr>)"
proof -
  have a: "\<forall>r. LocatorEngine_validateLocator navigateTo parseLocatorString locator_count u str = Inr r
        \<longrightarrow> isValid r = (matchCount r > 0) \<and> isUnique r = (matchCount r = 1)"
  proof (intro allI impI)
    fix r
    assume "LocatorEngine_validateLocator navigateTo parseLocatorString locator_count u str = Inr r"
    then show "isValid r = (matchCount r > 0) \<and> isUnique r = (matchCount r = 1)"
      by (rule validateLocator_flags)
  qed
  have b: "\<forall>page. navigateTo u = Inr page
        \<longrightarrow> (\<exists>r. LocatorEngine_validateLocator navigateTo parseLocatorString locator_count
                    u str = Inr r)"
  proof (intro allI impI)
    fix page
    assume "navigateTo u = Inr page"
    then show "\<exists>r. LocatorEngine_validateLocator navigateTo parseLocatorString locator_count
                   u str = Inr r"
      by (rule validateLocator_returns)
  qed
  have c: "\<forall>page e.
        navigateTo u = Inr page
        \<and> (parseLocatorString page str = Inl e
           \<or> (\<exists>loc. parseLocatorString page str = Inr loc \<and> locator_count loc = Inl e))
        \<longrightarrow> LocatorEngine_validateLocator navigateTo parseLocatorString locator_count u str
            = Inr \<lparr>isValid = False, matchCount = 0, isUnique = False,
                   suggestions = [''Invalid locator syntax: '' @ message_of e]\<rparr>"
  proof (intro allI impI)
    fix page e
    assume h: "navigateTo u = Inr page
        \<and> (parseLocatorString page str = Inl e
           \<or> (\<exists>loc. parseLocatorString page str = Inr loc \<and> locator_count loc = Inl e))"
    from h have 1: "navigateTo u = Inr page" by (rule conjunct1)
    from h have 2: "parseLocatorString page str = Inl e
           \<or> (\<exists>loc. parseLocatorString page str = Inr loc \<and> locator_count loc = Inl e)"
      by (rule conjunct2)
    from 1 2 show "LocatorEngine_validateLocator navigateTo parseLocatorString locator_count u str
            = Inr \<lparr>isValid = False, matchCount = 0, isUnique = False,
                   suggestions = [''Invalid locator syntax: '' @ message_of e]\<rparr>"
      by (rule validateLocator_caught)
  qed
  show ?thesis by (rule conjI[OF a conjI[OF b c]])
qed

theorem validateLocator_consistent_witness:
  "LocatorEngine_validateLocator demo_navigateTo demo_parse demo_count
       ''http://localhost/'' ''#a[''
     = Inr \<lparr>isValid = False, matchCount = 0, isUnique = False,
            suggestions = [''Invalid locator syntax: Unexpected token'']\<rparr>"
proof -
  have h: "demo_navigateTo ''http://localhost/'' = Inr 0
        \<and> (demo_parse 0 ''#a['' = Inl (Error ''Unexpected token'')
           \<or> (\<exists>loc. demo_parse 0 ''#a['' = Inr loc
                    \<and> demo_count loc = Inl (Error ''Unexpected token'')))"
    using demo_run by simp
  note t = validateLocator_consistent
         [of demo_navigateTo demo_parse demo_count "''http://localhost/''" "''#a[''"]
  from t have "\<forall>page e.
        demo_navigateTo ''http://localhost/'' = Inr page
        \<and> (demo_parse page ''#a['' = Inl e
           \<or> (\<exists>loc. demo_parse page ''#a['' = Inr loc \<and> demo_count loc = Inl e))
        \<longrightarrow> LocatorEngine_validateLocator demo_navigateTo demo_parse demo_count
              ''http://localhost/'' ''#a[''
            = Inr \<lparr>isValid = False, matchCount = 0, isUnique = False,
                   suggestions = [''Invalid locator syntax: '' @ message_of e]\<rparr>"
    by (elim conjE)
  then have "demo_navigateTo ''http://localhost/'' = Inr 0
        \<and> (demo_parse 0 ''#a['' = Inl (Error ''Unexpected token'')
           \<or> (\<exists>loc. demo_parse 0 ''#a['' = Inr loc
                    \<and> demo_count loc = Inl (Error ''Unexpected token'')))
        \<longrightarrow> LocatorEngine_validateLocator demo_navigateTo demo_parse demo_count
              ''http://localhost/'' ''#a[''
            = Inr \<lparr>isValid = False, matchCount = 0, isUnique = False,
                   suggestions = [''Invalid locator syntax: ''
                                  @ message_of (Error ''Unexpected token'')]\<rparr>"
    by (elim allE)
  with h have "LocatorEngine_validateLocator demo_navigateTo demo_parse demo_count
          ''http://localhost/'' ''#a[''
        = Inr \<lparr>isValid = False, matchCount = 0, isUnique = False,
               suggestions = [''Invalid locator syntax: ''
                              @ message_of (Error ''Unexpected token'')]\<rparr>"
    by (rule rev_mp)
  then show ?thesis by (simp add: demo_run(4))
qed

text \<open>
  X6. On a page without the element, the locator \<^verbatim>\<open>#nonexistent\<close> is reported as
  \<open>isValid = false\<close>, \<open>matchCount = 0\<close>, \<open>isUnique = false\<close>, with two suggestions; a locator
  with three matches is valid and not unique, and its first suggestion names the count.
\<close>

theorem validateLocator_scenarios:
  "LocatorEngine_validateLocator demo_navigateTo demo_parse demo_count
       ''http://localhost/'' ''#nonexistent''
     = Inr \<lparr>isValid = False, matchCount = 0, isUnique = False,
            suggestions = [''Element not found. Check if the page has loaded completely.'',
                           ''Verify the locator syntax is correct.'']\<rparr>
   \<and> LocatorEngine_validateLocator demo_navigateTo demo_parse demo_count
       ''http://localhost/'' ''button''
     = Inr \<lparr>isValid = True, matchCount = 3, isUnique = False,
            suggestions = [''Found 3 elements. Consider adding more specificity.'',
                           ''Try using getByRole with name option for uniqueness.'']\<rparr>"
  by code_simp

end
